theory Spec2Isabelle
  imports Main
begin

section \<open>Python values found in a standard dictionary\<close>

text \<open>
  The markdown expander of \<^verbatim>\<open>brian2tools/mdexport/expander.py\<close> walks a nested Python
  structure. Its values are modelled by one datatype. A dictionary keeps its insertion
  order (an association list with \<^verbatim>\<open>str\<close> keys); \<open>PArray\<close> is a one-dimensional numpy
  array of integers, such as a list of indices (it has \<^verbatim>\<open>size\<close> and \<^verbatim>\<open>__iter__\<close>);
  \<open>PQuantity\<close> is a scalar brian2 Quantity, carried by the text \<^verbatim>\<open>str()\<close> prints for it. A
  scalar Quantity is a zero-dimensional numpy array: it has \<^verbatim>\<open>size\<close> and \<^verbatim>\<open>__iter__\<close> as every
  array has, but iterating it raises TypeError. Floating point numbers and arrays of
  quantities are not modelled.

  The source compares strings with \<^verbatim>\<open>is\<close> in two places, so a \<^verbatim>\<open>str\<close> object carries its
  identity as far as that comparison can see it: CPython keeps one interned object per
  content, and a string constant of the source that looks like an identifier is that
  object. \<open>Interned\<close> marks this object, \<open>Fresh\<close> any other object of the same content
  (a string built at run time).
\<close>

datatype identity = Interned | Fresh

datatype pyval =
    PNone
  | PBool bool
  | PInt int
  | PStr identity string
  | PList "pyval list"
  | PDict "(string \<times> pyval) list"
  | PArray "int list"
  | PQuantity string

datatype error =
    IndexError
  | PlainException
  | KeyError string
  | TypeError
  | AttributeError string
  | ValueError
  | SympifyError

text \<open>Sequencing of computations that may raise: the first exception wins.\<close>

definition bind :: "error + 'a \<Rightarrow> ('a \<Rightarrow> error + 'b) \<Rightarrow> error + 'b" where
  "bind m f = (case m of Inl e \<Rightarrow> Inl e | Inr x \<Rightarrow> f x)"

text \<open>\<^verbatim>\<open>hasattr(v, name)\<close> for the attributes the expander probes.\<close>

fun hasattr :: "pyval \<Rightarrow> string \<Rightarrow> bool" where
  "hasattr (PStr i s) a = (a = ''__iter__'')"
| "hasattr (PList xs) a = (a = ''__iter__'')"
| "hasattr (PDict kvs) a = (a = ''__iter__'')"
| "hasattr (PArray xs) a = (a = ''__iter__'' \<or> a = ''size'')"
| "hasattr (PQuantity q) a = (a = ''__iter__'' \<or> a = ''size'')"
| "hasattr v a = False"

text \<open>
  The elements a \<^verbatim>\<open>for\<close> loop sees: the characters of a string, the members of a list
  or array, the keys of a dictionary. Iterating anything else raises TypeError, also a
  scalar Quantity, although it has \<^verbatim>\<open>__iter__\<close>.
\<close>

fun py_iter :: "pyval \<Rightarrow> error + pyval list" where
  "py_iter (PStr i s) = Inr (map (\<lambda>c. PStr Interned [c]) s)"
| "py_iter (PList xs) = Inr xs"
| "py_iter (PDict kvs) = Inr (map (\<lambda>kv. PStr Fresh (fst kv)) kvs)"
| "py_iter (PArray xs) = Inr (map PInt xs)"
| "py_iter v = Inl TypeError"

section \<open>Python strings\<close>

text \<open>\<^verbatim>\<open>sep.join(xs)\<close>.\<close>

fun join :: "string \<Rightarrow> string list \<Rightarrow> string" where
  "join sep [] = []"
| "join sep [x] = x"
| "join sep (x # y # ys) = x @ sep @ join sep (y # ys)"

text \<open>\<^verbatim>\<open>sub in s\<close> for two strings.\<close>

definition starts_with :: "string \<Rightarrow> string \<Rightarrow> bool" where
  "starts_with sub s = (take (length sub) s = sub)"

fun contains :: "string \<Rightarrow> string \<Rightarrow> bool" where
  "contains sub [] = (sub = [])"
| "contains sub (c # cs) = (starts_with sub (c # cs) \<or> contains sub cs)"

text \<open>
  \<^verbatim>\<open>s.replace(old, new)\<close> for a non-empty \<open>old\<close>: occurrences are replaced from the
  left and do not overlap. The counter is the number of characters of a matched
  occurrence still to be skipped.
\<close>

fun replace_from :: "string \<Rightarrow> string \<Rightarrow> nat \<Rightarrow> string \<Rightarrow> string" where
  "replace_from old new k [] = []"
| "replace_from old new (Suc k) (c # cs) = replace_from old new k cs"
| "replace_from old new 0 (c # cs) =
     (if starts_with old (c # cs) then new @ replace_from old new (length old - 1) cs
      else c # replace_from old new 0 cs)"

definition replace :: "string \<Rightarrow> string \<Rightarrow> string \<Rightarrow> string" where
  "replace old new s = replace_from old new 0 s"

text \<open>\<^verbatim>\<open>str(n)\<close> for an integer: decimal digits, with a sign when negative.\<close>

function str_nat :: "nat \<Rightarrow> string" where
  "str_nat n =
     (if n < 10 then [''0123456789'' ! n]
      else str_nat (n div 10) @ [''0123456789'' ! (n mod 10)])"
  by pat_completeness auto
termination
  by (relation "measure id") auto

declare str_nat.simps [simp del]

definition str_int :: "int \<Rightarrow> string" where
  "str_int i = (if i < 0 then CHR ''-'' # str_nat (nat (- i)) else str_nat (nat i))"

text \<open>
  \<^verbatim>\<open>re.split(';|\n', s)\<close>: the pieces between the separators; there is always at least
  one piece.
\<close>

fun cons_first :: "char \<Rightarrow> string list \<Rightarrow> string list" where
  "cons_first c [] = [[c]]"
| "cons_first c (w # ws) = (c # w) # ws"

fun split_statements :: "string \<Rightarrow> string list" where
  "split_statements [] = [[]]"
| "split_statements (c # cs) =
     (if c = CHR '';'' \<or> c = CHR 0x0A then [] # split_statements cs
      else cons_first c (split_statements cs))"

text \<open>
  \<^verbatim>\<open>re.split('-=|\+=|=', s)\<close>: at each position the alternatives are tried in the order
  written, so \<^verbatim>\<open>-=\<close> and \<^verbatim>\<open>+=\<close> are consumed as one separator.
\<close>

fun split_operators :: "string \<Rightarrow> string list" where
  "split_operators [] = [[]]"
| "split_operators (c # d # cs) =
     (if (c = CHR ''-'' \<or> c = CHR ''+'') \<and> d = CHR ''='' then [] # split_operators cs
      else if c = CHR ''='' then [] # split_operators (d # cs)
      else cons_first c (split_operators (d # cs)))"
| "split_operators [c] = (if c = CHR ''='' then [[], []] else [[c]])"

definition endll :: string where
  "endll = [CHR 0x0A, CHR 0x0A]"

definition endl :: string where
  "endl = [CHR 0x0A]"

definition tab :: string where
  "tab = [CHR 0x09]"

section \<open>Operations on Python values\<close>

text \<open>\<^verbatim>\<open>d[k]\<close> with a string key.\<close>

fun getitem :: "pyval \<Rightarrow> string \<Rightarrow> error + pyval" where
  "getitem (PDict kvs) k = (case map_of kvs k of Some v \<Rightarrow> Inr v | None \<Rightarrow> Inl (KeyError k))"
| "getitem (PArray xs) k = Inl IndexError"
| "getitem (PQuantity q) k = Inl IndexError"
| "getitem v k = Inl TypeError"

text \<open>
  \<^verbatim>\<open>k in d\<close>. The expander only asks this of a value it has already subscripted with a
  string key, so of a dictionary.
\<close>

fun has_key :: "string \<Rightarrow> pyval \<Rightarrow> bool" where
  "has_key k (PDict kvs) = (k \<in> set (map fst kvs))"
| "has_key k v = False"

text \<open>\<^verbatim>\<open>d.items()\<close>.\<close>

fun items :: "pyval \<Rightarrow> error + (string \<times> pyval) list" where
  "items (PDict kvs) = Inr kvs"
| "items v = Inl (AttributeError ''items'')"

text \<open>A value used as an operand of string concatenation must be a \<^verbatim>\<open>str\<close>.\<close>

fun str_operand :: "pyval \<Rightarrow> error + string" where
  "str_operand (PStr i s) = Inr s"
| "str_operand v = Inl TypeError"

definition get_str :: "pyval \<Rightarrow> string \<Rightarrow> error + string" where
  "get_str d k = bind (getitem d k) str_operand"

fun isinstance_str :: "pyval \<Rightarrow> bool" where
  "isinstance_str (PStr i s) = True"
| "isinstance_str v = False"

fun isinstance_bool :: "pyval \<Rightarrow> bool" where
  "isinstance_bool (PBool b) = True"
| "isinstance_bool v = False"

fun isinstance_dict :: "pyval \<Rightarrow> bool" where
  "isinstance_dict (PDict kvs) = True"
| "isinstance_dict v = False"

text \<open>
  The truth value of \<^verbatim>\<open>v == 'lit'\<close> in a condition. Strings are compared by content. On an
  array the comparison is elementwise (numpy from 1.25 on), no integer equals a string, and
  the result has a truth value only when it has at most one element: for more, taking it
  raises ValueError. Any other value is unequal to every string. \<^verbatim>\<open>v is 'lit'\<close> compares the
  object.
\<close>

fun eq_str :: "pyval \<Rightarrow> string \<Rightarrow> error + bool" where
  "eq_str (PStr i s) lit = Inr (s = lit)"
| "eq_str (PArray []) lit = Inr False"
| "eq_str (PArray [x]) lit = Inr False"
| "eq_str (PArray (x # y # ys)) lit = Inl ValueError"
| "eq_str v lit = Inr False"

fun is_str :: "pyval \<Rightarrow> string \<Rightarrow> bool" where
  "is_str (PStr Interned s) lit = (s = lit)"
| "is_str v lit = False"

text \<open>
  The truth value of \<^verbatim>\<open>v != n\<close> for an integer \<open>n\<close> (\<^verbatim>\<open>True == 1\<close> holds in Python). On an
  array the comparison is elementwise, as for \<open>eq_str\<close>.
\<close>

fun ne_int :: "pyval \<Rightarrow> int \<Rightarrow> error + bool" where
  "ne_int (PInt i) n = Inr (i \<noteq> n)"
| "ne_int (PBool b) n = Inr ((if b then 1 else 0) \<noteq> n)"
| "ne_int (PArray []) n = Inr False"
| "ne_int (PArray [x]) n = Inr (x \<noteq> n)"
| "ne_int (PArray (x # y # ys)) n = Inl ValueError"
| "ne_int v n = Inr True"

text \<open>
  The truth value of an object in a condition. An array of more than one element has
  none (numpy raises). The value of a scalar Quantity is not part of the model; it is taken
  as non-zero.
\<close>

fun truthy :: "pyval \<Rightarrow> error + bool" where
  "truthy PNone = Inr False"
| "truthy (PBool b) = Inr b"
| "truthy (PInt i) = Inr (i \<noteq> 0)"
| "truthy (PStr i s) = Inr (s \<noteq> [])"
| "truthy (PList xs) = Inr (xs \<noteq> [])"
| "truthy (PDict kvs) = Inr (kvs \<noteq> [])"
| "truthy (PArray []) = Inr False"
| "truthy (PArray [x]) = Inr (x \<noteq> 0)"
| "truthy (PArray (x # y # ys)) = Inl ValueError"
| "truthy (PQuantity q) = Inr True"

text \<open>\<^verbatim>\<open>a.size\<close>, which only an array has.\<close>

fun size_attr :: "pyval \<Rightarrow> error + nat" where
  "size_attr (PArray xs) = Inr (length xs)"
| "size_attr (PQuantity q) = Inr 1"
| "size_attr v = Inl (AttributeError ''size'')"

section \<open>check_plural\<close>

definition singular_plural_dict :: "(string \<times> string) list" where
  "singular_plural_dict = [(''index'', ''indices''), (''property'', ''properties'')]"

text \<open>
  The loop \<^verbatim>\<open>for _ in iterable\<close> of \<^verbatim>\<open>check_plural\<close> with its counter. A
  \<^verbatim>\<open>singular_word\<close> counts as given when it is truthy: neither \<^verbatim>\<open>None\<close> nor empty.
\<close>

fun check_plural_loop :: "string option \<Rightarrow> nat \<Rightarrow> pyval list \<Rightarrow> error + string" where
  "check_plural_loop singular_word count [] = Inr ''''"
| "check_plural_loop singular_word count (x # xs) =
     (let count = count + 1 in
      if count > 1 then
        (if singular_word \<noteq> None \<and> the singular_word \<noteq> [] then
           (case map_of singular_plural_dict (the singular_word) of
              Some plural \<Rightarrow> Inr plural
            | None \<Rightarrow> Inl PlainException)
         else Inr ''s'')
      else check_plural_loop singular_word count xs)"

definition check_plural :: "pyval \<Rightarrow> string option \<Rightarrow> bool \<Rightarrow> error + string" where
  "check_plural iterable singular_word allow_constants =
     (if hasattr iterable ''__iter__'' then
        bind (py_iter iterable) (check_plural_loop singular_word 0)
      else if \<not> allow_constants then Inl IndexError
      else Inr '''')"

section \<open>External collaborators and the expander object\<close>

text \<open>
  The markdown primitives (\<^verbatim>\<open>markdown_strings\<close>), the symbolic renderer (\<^verbatim>\<open>sympy\<close>,
  \<^verbatim>\<open>str_to_sympy\<close> of brian2) and the printing of containers are not part of the
  repository. They are parameters of the model: \<open>header\<close>, \<open>bold\<close> and
  \<open>horizontal_rule\<close> are string templates (the library applies \<^verbatim>\<open>str()\<close> to what it
  is given before formatting), \<open>str_to_sympy\<close> parses text and may raise,
  \<open>Derivative\<close> wraps an expression, \<open>latex\<close> prints one with
  \<^verbatim>\<open>mode='equation', itex=True, mul_symbol='.'\<close>, and \<open>str_other\<close> is \<^verbatim>\<open>str()\<close> on lists,
  dictionaries and arrays.
\<close>

datatype 'e expression = Text string | Sym 'e

record 'e ext =
  header :: "string \<Rightarrow> nat \<Rightarrow> string"
  bold :: "string \<Rightarrow> string"
  horizontal_rule :: string
  str_other :: "pyval \<Rightarrow> string"
  str_to_sympy :: "string \<Rightarrow> error + 'e"
  Derivative :: "'e expression \<Rightarrow> error + 'e"
  latex :: "'e expression \<Rightarrow> string"

text \<open>
  The attributes of a \<^verbatim>\<open>Std_mdexpander\<close> object. The class has no constructor, so
  an attribute is absent (\<open>None\<close>) until \<^verbatim>\<open>create_md_string\<close> assigns it.
\<close>

record Std_mdexpander =
  github_md :: "bool option"
  md_text :: "string option"

text \<open>\<^verbatim>\<open>str(v)\<close>.\<close>

fun py_str :: "'e ext \<Rightarrow> pyval \<Rightarrow> string" where
  "py_str X PNone = ''None''"
| "py_str X (PBool b) = (if b then ''True'' else ''False'')"
| "py_str X (PInt i) = str_int i"
| "py_str X (PStr i s) = s"
| "py_str X (PQuantity q) = q"
| "py_str X v = str_other X v"

text \<open>A loop \<^verbatim>\<open>for x in xs: acc += f(x)\<close>.\<close>

fun for_each :: "('a \<Rightarrow> error + string) \<Rightarrow> 'a list \<Rightarrow> string \<Rightarrow> error + string" where
  "for_each f [] acc = Inr acc"
| "for_each f (x # xs) acc = bind (f x) (\<lambda>s. for_each f xs (acc @ s))"

text \<open>A comprehension \<^verbatim>\<open>[f(x) for x in xs]\<close> whose \<open>f\<close> may raise.\<close>

fun map_each :: "('a \<Rightarrow> error + 'b) \<Rightarrow> 'a list \<Rightarrow> error + 'b list" where
  "map_each f [] = Inr []"
| "map_each f (x # xs) = bind (f x) (\<lambda>y. bind (map_each f xs) (\<lambda>ys. Inr (y # ys)))"

section \<open>render_expression and prepare_math_statements\<close>

definition render_expression ::
  "'e ext \<Rightarrow> Std_mdexpander \<Rightarrow> pyval \<Rightarrow> bool \<Rightarrow> error + string" where
  "render_expression X self expression differential =
     bind (case expression of
             PQuantity q \<Rightarrow> Inr (Text (py_str X expression))
           | PStr i s \<Rightarrow> bind (str_to_sympy X s) (\<lambda>e. Inr (Sym e))
           | _ \<Rightarrow> bind (str_to_sympy X (py_str X expression)) (\<lambda>e. Inr (Sym e)))
       (\<lambda>expression.
     bind (if differential then bind (Derivative X expression) (\<lambda>e. Inr (Sym e))
           else Inr expression)
       (\<lambda>expression.
     let rend_exp = latex X expression;
         rend_exp = replace ''_placeholder_{arg}'' ''-'' rend_exp;
         rend_exp = replace (CHR 0x5C # ''operatorname'') '''' rend_exp
     in case github_md self of
          None \<Rightarrow> Inl (AttributeError ''github_md'')
        | Some g \<Rightarrow>
            if g then
              (let rend_exp = drop 2 rend_exp;
                   rend_exp = take (length rend_exp - 2) rend_exp
               in Inr (''<img src='' @ [CHR 0x22] @
                       ''https://render.githubusercontent.com/render/math?math='' @
                       rend_exp @ [CHR 0x22] @ ''>''))
            else
              (let rend_exp = drop 1 rend_exp
               in Inr (take (length rend_exp - 1) rend_exp))))"

text \<open>
  One pass of the loop over \<^verbatim>\<open>list_eqns\<close>: what is appended to \<^verbatim>\<open>rend_str\<close> for one
  statement, before the separator. The unpacking \<^verbatim>\<open>lhs, rhs = re.split(...)\<close> raises
  ValueError unless the split gives exactly two parts.
\<close>

definition render_statement ::
  "'e ext \<Rightarrow> Std_mdexpander \<Rightarrow> bool \<Rightarrow> bool \<Rightarrow> string \<Rightarrow> string \<Rightarrow> error + string" where
  "render_statement X self differential separate equals statement =
     (if separate then
        (if contains ''+='' statement \<or> contains ''='' statement \<or> contains ''-='' statement then
           (case split_operators statement of
              [lhs, rhs] \<Rightarrow>
                if contains ''+='' statement then
                  bind (render_expression X self (PStr Fresh lhs) False) (\<lambda>l.
                  bind (render_expression X self (PStr Fresh rhs) False) (\<lambda>r.
                    Inr (l @ ''+='' @ r)))
                else if contains ''-='' statement then
                  bind (render_expression X self (PStr Fresh lhs) False) (\<lambda>l.
                  bind (render_expression X self (PStr Fresh rhs) False) (\<lambda>r.
                    Inr (l @ ''-='' @ r)))
                else
                  bind (render_expression X self (PStr Fresh lhs) False) (\<lambda>l.
                  bind (render_expression X self (PStr Fresh rhs) False) (\<lambda>r.
                    Inr (l @ equals @ r)))
            | _ \<Rightarrow> Inl ValueError)
         else Inr '''')
      else render_expression X self (PStr Fresh statement) differential)"

definition prepare_math_statements ::
  "'e ext \<Rightarrow> Std_mdexpander \<Rightarrow> string \<Rightarrow> bool \<Rightarrow> bool \<Rightarrow> string \<Rightarrow> error + string" where
  "prepare_math_statements X self statements differential separate equals =
     (let list_eqns = split_statements statements in
      bind (for_each
              (\<lambda>statement.
                 bind (render_statement X self differential separate equals statement)
                   (\<lambda>r. Inr (r @ '', '')))
              list_eqns '''')
        (\<lambda>rend_str. Inr (take (length rend_str - 2) rend_str)))"

text \<open>The default of the parameter \<^verbatim>\<open>equals\<close>.\<close>

definition equals_default :: string where
  "equals_default = ''&#8592;''"

section \<open>Identifiers, events and equations\<close>

definition expand_identifier ::
  "'e ext \<Rightarrow> Std_mdexpander \<Rightarrow> string \<Rightarrow> pyval \<Rightarrow> error + string" where
  "expand_identifier X self ident_key ident_value =
     bind (if \<not> isinstance_dict ident_value then
             bind (render_expression X self (PStr Fresh ident_key) False) (\<lambda>k.
             bind (render_expression X self ident_value False) (\<lambda>v.
               Inr (k @ '': '' @ v)))
           else
             bind (render_expression X self (PStr Fresh ident_key) False) (\<lambda>k.
             bind (get_str ident_value ''type'') (\<lambda>ty.
             let ident_str = k @ '' of type '' @ ty in
             bind (getitem ident_value ''type'') (\<lambda>tyv.
               if is_str tyv ''timedarray'' then
                 bind (getitem ident_value ''ndim'') (\<lambda>ndim.
                 bind (render_expression X self ndim False) (\<lambda>n.
                 bind (getitem ident_value ''dt'') (\<lambda>dt.
                 bind (render_expression X self dt False) (\<lambda>d.
                   Inr (ident_str @ '' with dimension '' @ n @ '' and dt as '' @ d)))))
               else Inr ident_str))))
       (\<lambda>ident_str. Inr (ident_str @ '', ''))"

definition expand_identifiers :: "'e ext \<Rightarrow> Std_mdexpander \<Rightarrow> pyval \<Rightarrow> error + string" where
  "expand_identifiers X self identifiers =
     bind (items identifiers) (\<lambda>kvs.
     bind (for_each (\<lambda>(key, val). expand_identifier X self key val) kvs '''') (\<lambda>idents_str.
       Inr (tab @ take (length idents_str - 2) idents_str @ endll)))"

definition expand_event ::
  "'e ext \<Rightarrow> Std_mdexpander \<Rightarrow> string \<Rightarrow> pyval \<Rightarrow> error + string" where
  "expand_event X self event_name event_details =
     (let event_str = tab @ ''Event '' @ bold X event_name @ '', '' in
      bind (getitem event_details ''threshold'') (\<lambda>threshold.
      bind (getitem threshold ''code'') (\<lambda>code.
      bind (render_expression X self code False) (\<lambda>r.
      let event_str = event_str @ ''after '' @ r in
      bind (if has_key ''reset'' event_details then
              bind (getitem event_details ''reset'') (\<lambda>reset.
              bind (getitem reset ''code'') (\<lambda>code.
              bind (str_operand code) (\<lambda>code.
              bind (prepare_math_statements X self code False True equals_default) (\<lambda>p.
                Inr (event_str @ '', '' @ p)))))
            else Inr event_str) (\<lambda>event_str.
      bind (if has_key ''refractory'' event_details then
              bind (getitem event_details ''refractory'') (\<lambda>refractory.
              bind (render_expression X self refractory False) (\<lambda>r.
                Inr (event_str @ '', with refractory '' @ r)))
            else Inr event_str) (\<lambda>event_str.
        Inr (event_str @ endll)))))))"

definition expand_events :: "'e ext \<Rightarrow> Std_mdexpander \<Rightarrow> pyval \<Rightarrow> error + string" where
  "expand_events X self events =
     bind (items events) (\<lambda>kvs.
       for_each (\<lambda>(name, details). expand_event X self name details) kvs '''')"

definition expand_equation ::
  "'e ext \<Rightarrow> Std_mdexpander \<Rightarrow> string \<Rightarrow> pyval \<Rightarrow> error + string" where
  "expand_equation X self var equation =
     bind (getitem equation ''type'') (\<lambda>ty.
     bind (eq_str ty ''differential equation'') (\<lambda>differential.
     bind (if differential then
             render_expression X self (PStr Fresh var) True
           else
             bind (eq_str ty ''subexpression'') (\<lambda>subexpression.
             if subexpression then
               render_expression X self (PStr Fresh var) False
             else
               bind (render_expression X self (PStr Fresh var) False) (\<lambda>r.
                 Inr (''Parameter '' @ r)))) (\<lambda>rend_eqn.
     bind (if has_key ''expr'' equation then
             bind (getitem equation ''expr'') (\<lambda>expr.
             bind (render_expression X self expr False) (\<lambda>r.
               Inr (rend_eqn @ ''='' @ r)))
           else Inr rend_eqn) (\<lambda>rend_eqn.
     bind (render_expression X self (PStr Fresh var) False) (\<lambda>rv.
     bind (getitem equation ''unit'') (\<lambda>unit.
     let rend_eqn = rend_eqn @ '', where unit of '' @ rv @ '' is '' @ py_str X unit in
     bind (if has_key ''flags'' equation then
             bind (getitem equation ''flags'') (\<lambda>flags.
             bind (py_iter flags) (\<lambda>fs.
             bind (check_plural flags None True) (\<lambda>pl.
               Inr (rend_eqn @ '' and '' @ join '', '' (map (py_str X) fs) @
                    '' as flag'' @ pl @ '' associated''))))
           else Inr rend_eqn) (\<lambda>rend_eqn.
       Inr (tab @ rend_eqn @ endll))))))))"

definition expand_equations :: "'e ext \<Rightarrow> Std_mdexpander \<Rightarrow> pyval \<Rightarrow> error + string" where
  "expand_equations X self equations =
     bind (items equations) (\<lambda>kvs.
       for_each (\<lambda>(var, equation). expand_equation X self var equation) kvs '''')"

section \<open>Initializers and connectors\<close>

definition expand_initializer :: "'e ext \<Rightarrow> Std_mdexpander \<Rightarrow> pyval \<Rightarrow> error + string" where
  "expand_initializer X self initializer =
     bind (getitem initializer ''variable'') (\<lambda>variable.
     bind (render_expression X self variable False) (\<lambda>rvar.
     bind (get_str initializer ''source'') (\<lambda>source.
     bind (getitem initializer ''value'') (\<lambda>val.
     bind (render_expression X self val False) (\<lambda>rval.
     let init_str = ''Variable '' @ rvar @ '' of '' @ source @ '' initialized with '' @ rval in
     bind (getitem initializer ''index'') (\<lambda>index.
     bind (if isinstance_str index then
             bind (eq_str index ''True'') (\<lambda>is_true.
               if \<not> is_true then bind (eq_str index ''False'') (\<lambda>is_false. Inr (\<not> is_false))
               else Inr False)
           else Inr False) (\<lambda>on_condition.
     bind (if on_condition then
             bind (str_operand index) (\<lambda>i. Inr (init_str @ '' on condition '' @ i))
           else
             bind (if isinstance_bool index then Inr True
                   else
                     bind (eq_str index ''True'') (\<lambda>is_true.
                       if is_true then Inr True else eq_str index ''False'')) (\<lambda>all_or_none.
             if all_or_none then
               bind (truthy index) (\<lambda>t.
               bind (if t then Inr True else eq_str index ''True'') (\<lambda>all_members.
                 if all_members then Inr (init_str @ '' to all members'')
                 else Inr (init_str @ '' to no member'')))
             else
               bind (check_plural index None True) (\<lambda>pl.
               let init_str = init_str @ '' to member'' @ pl @ '' '' in
               if \<not> hasattr index ''__iter___'' then Inr (init_str @ py_str X index)
               else
                 bind (py_iter index) (\<lambda>inds.
                   Inr (init_str @ join '','' (map (py_str X) inds)))))) (\<lambda>init_str.
     bind (if has_key ''identifiers'' initializer then
             bind (getitem initializer ''identifiers'') (\<lambda>identifiers.
             bind (check_plural identifiers None True) (\<lambda>pl.
             bind (expand_identifiers X self identifiers) (\<lambda>e.
               Inr (init_str @ ''. Identifier'' @ pl @ '' associated: '' @ e))))
           else Inr init_str) (\<lambda>init_str.
       Inr (init_str @ endll))))))))))"

text \<open>
  The text for the indices \<^verbatim>\<open>connector['i']\<close> or \<^verbatim>\<open>connector['j']\<close>, a block the source
  writes out twice: the members joined when the value is iterable, the value itself when it
  is a constant, the generator syntax when it is a string.
\<close>

definition index_text :: "'e ext \<Rightarrow> pyval \<Rightarrow> error + string" where
  "index_text X ind =
     (if \<not> isinstance_str ind then
        (if hasattr ind ''__iter__'' then
           bind (py_iter ind) (\<lambda>inds. Inr (join '', '' (map (py_str X) inds)))
         else Inr (py_str X ind))
      else bind (str_operand ind) (\<lambda>s. Inr ('' with generator syntax '' @ s)))"

definition expand_connector :: "'e ext \<Rightarrow> Std_mdexpander \<Rightarrow> pyval \<Rightarrow> error + string" where
  "expand_connector X self connector =
     bind (get_str connector ''source'') (\<lambda>source.
     bind (get_str connector ''target'') (\<lambda>target.
     let con_str = ''Connection from '' @ source @ '' to '' @ target in
     bind (if has_key ''i'' connector then
             bind (getitem connector ''i'') (\<lambda>i.
             bind (check_plural i (Some ''index'') True) (\<lambda>pl.
             let con_str = con_str @ ''. From source group '' @ pl @ '': '' in
             bind (index_text X i) (\<lambda>s.
             let con_str = con_str @ s in
             if has_key ''j'' connector then
               bind (getitem connector ''j'') (\<lambda>j.
               bind (check_plural j (Some ''index'') True) (\<lambda>pl.
               let con_str = con_str @ '' to target group '' @ pl @ '': '' in
               bind (index_text X j) (\<lambda>s. Inr (con_str @ s))))
             else Inr (con_str @ '' to all target group members''))))
           else if has_key ''j'' connector then
             (let con_str = con_str @ ''. Connection for all members in source group'' in
              bind (getitem connector ''j'') (\<lambda>j.
              if \<not> isinstance_str j then
                bind (check_plural j (Some ''index'') True) (\<lambda>pl.
                let con_str = con_str @ '' to target group '' @ pl @ '': '' in
                if hasattr j ''__iter__'' then
                  bind (py_iter j) (\<lambda>js. Inr (con_str @ join '', '' (map (py_str X) js)))
                else Inr (con_str @ py_str X j))
              else
                bind (str_operand j) (\<lambda>s.
                  Inr (con_str @ '' to target group with generator syntax '' @ s))))
           else if has_key ''condition'' connector then
             bind (getitem connector ''condition'') (\<lambda>condition.
             bind (render_expression X self condition False) (\<lambda>r.
               Inr (con_str @ '' with condition '' @ r)))
           else Inr con_str) (\<lambda>con_str.
     bind (getitem connector ''probability'') (\<lambda>probability.
     bind (ne_int probability 1) (\<lambda>differs.
     bind (if differs then
             bind (render_expression X self probability False) (\<lambda>r.
               Inr (con_str @ '', with probability '' @ r))
           else Inr con_str) (\<lambda>con_str.
     bind (getitem connector ''n_connections'') (\<lambda>n_connections.
     bind (ne_int n_connections 1) (\<lambda>differs.
     bind (if differs then
             bind (render_expression X self n_connections False) (\<lambda>r.
               Inr (con_str @ '', with number of connections '' @ r))
           else Inr con_str) (\<lambda>con_str.
     bind (if has_key ''identifiers'' connector then
             bind (getitem connector ''identifiers'') (\<lambda>identifiers.
             bind (expand_identifiers X self identifiers) (\<lambda>e.
               Inr (con_str @ ''. Constants associated: '' @ e)))
           else Inr con_str) (\<lambda>con_str.
       Inr (con_str @ endll)))))))))))"

section \<open>Groups\<close>

definition expand_runregularly :: "'e ext \<Rightarrow> Std_mdexpander \<Rightarrow> pyval \<Rightarrow> error + string" where
  "expand_runregularly X self run_reg =
     bind (getitem run_reg ''dt'') (\<lambda>dt.
     bind (render_expression X self dt False) (\<lambda>r.
     bind (getitem run_reg ''code'') (\<lambda>code.
     bind (str_operand code) (\<lambda>code.
     bind (prepare_math_statements X self code False True equals_default) (\<lambda>p.
       Inr (tab @ ''For every '' @ r @ '' code: '' @ p @ '' will be executed'' @ endll))))))"

text \<open>
  A string literal of the source that is continued on the next line with a backslash keeps
  the indentation of that line; \<open>replicate\<close> counts these spaces.
\<close>

definition expand_NeuronGroup :: "'e ext \<Rightarrow> Std_mdexpander \<Rightarrow> pyval \<Rightarrow> error + string" where
  "expand_NeuronGroup X self neurongrp =
     bind (getitem neurongrp ''name'') (\<lambda>name.
     bind (getitem neurongrp ''N'') (\<lambda>N.
     let md_str = ''Name '' @ bold X (py_str X name) @ '', with '' @ replicate 16 (CHR '' '') @
                  ''population size '' @ bold X (py_str X N) @ ''.'' @ endll;
         md_str = md_str @ tab @ bold X ''Dynamics:'' @ endll in
     bind (getitem neurongrp ''equations'') (\<lambda>equations.
     bind (expand_equations X self equations) (\<lambda>e.
     let md_str = md_str @ e in
     bind (getitem neurongrp ''user_method'') (\<lambda>user_method.
     bind (truthy user_method) (\<lambda>t.
     bind (if t then
             bind (str_operand user_method) (\<lambda>m.
               Inr (md_str @ tab @ m @ '' method is used for integration'' @ endll))
           else Inr md_str) (\<lambda>md_str.
     bind (if has_key ''events'' neurongrp then
             bind (getitem neurongrp ''events'') (\<lambda>events.
             bind (expand_events X self events) (\<lambda>e.
               Inr (md_str @ tab @ bold X ''Events:'' @ endll @ e)))
           else Inr md_str) (\<lambda>md_str.
     bind (if has_key ''identifiers'' neurongrp then
             bind (getitem neurongrp ''identifiers'') (\<lambda>identifiers.
             bind (expand_identifiers X self identifiers) (\<lambda>e.
               Inr (md_str @ tab @ bold X ''Constants:'' @ endll @ e)))
           else Inr md_str) (\<lambda>md_str.
     if has_key ''run_regularly'' neurongrp then
       bind (getitem neurongrp ''run_regularly'') (\<lambda>run_regularly.
       bind (check_plural run_regularly None True) (\<lambda>pl.
       let md_str = md_str @ tab @ bold X ''Run regularly'' @ pl @ '': '' @ endll in
       bind (py_iter run_regularly) (\<lambda>run_regs.
         for_each (expand_runregularly X self) run_regs md_str)))
     else Inr md_str)))))))))"

definition expand_PoissonGroup :: "'e ext \<Rightarrow> Std_mdexpander \<Rightarrow> pyval \<Rightarrow> error + string" where
  "expand_PoissonGroup X self poisngrp =
     bind (getitem poisngrp ''name'') (\<lambda>name.
     bind (getitem poisngrp ''N'') (\<lambda>N.
     bind (getitem poisngrp ''rates'') (\<lambda>rates.
     bind (render_expression X self rates False) (\<lambda>r.
     let md_str = tab @ ''Name '' @ bold X (py_str X name) @ '', with '' @
                  replicate 16 (CHR '' '') @ ''population size '' @ bold X (py_str X N) @
                  '' and rate as '' @ r @ ''.'' @ endll in
     bind (if has_key ''identifiers'' poisngrp then
             bind (getitem poisngrp ''identifiers'') (\<lambda>identifiers.
             bind (expand_identifiers X self identifiers) (\<lambda>e.
               Inr (md_str @ tab @ bold X ''Constants:'' @ endll @ e)))
           else Inr md_str) (\<lambda>md_str.
     if has_key ''run_regularly'' poisngrp then
       (let md_str = md_str @ tab @ bold X ''Run regularly: '' @ endll in
        bind (getitem poisngrp ''run_regularly'') (\<lambda>run_regularly.
        bind (py_iter run_regularly) (\<lambda>run_regs.
          for_each (expand_runregularly X self) run_regs md_str)))
     else Inr md_str)))))"

definition expand_SpikeGeneratorGroup ::
  "'e ext \<Rightarrow> Std_mdexpander \<Rightarrow> pyval \<Rightarrow> error + string" where
  "expand_SpikeGeneratorGroup X self spkgen =
     bind (getitem spkgen ''name'') (\<lambda>name.
     bind (getitem spkgen ''N'') (\<lambda>N.
     bind (getitem spkgen ''indices'') (\<lambda>indices.
     bind (check_plural indices None True) (\<lambda>pl.
     bind (py_iter indices) (\<lambda>inds.
     bind (getitem spkgen ''times'') (\<lambda>times.
     bind (py_iter times) (\<lambda>ts.
     bind (getitem spkgen ''period'') (\<lambda>period.
     let md_str = tab @ ''Name '' @ bold X (py_str X name) @
                  '', with population size '' @ bold X (py_str X N) @
                  '', has neuron'' @ pl @ '': '' @ join '', '' (map (py_str X) inds) @
                  '' that spike at times '' @ join '', '' (map (py_str X) ts) @
                  '', with period '' @ py_str X period @ ''.'' @ endll in
     if has_key ''run_regularly'' spkgen then
       (let md_str = md_str @ tab @ bold X ''Run regularly: '' @ endll in
        bind (getitem spkgen ''run_regularly'') (\<lambda>run_regularly.
        bind (py_iter run_regularly) (\<lambda>run_regs.
          for_each (expand_runregularly X self) run_regs md_str)))
     else Inr md_str))))))))"

section \<open>Monitors\<close>

definition expand_StateMonitor :: "'e ext \<Rightarrow> Std_mdexpander \<Rightarrow> pyval \<Rightarrow> error + string" where
  "expand_StateMonitor X self statemon =
     bind (getitem statemon ''variables'') (\<lambda>variables.
     bind (check_plural variables None True) (\<lambda>pl.
     bind (py_iter variables) (\<lambda>vars.
     bind (map_each (\<lambda>var. render_expression X self var False) vars) (\<lambda>rs.
     bind (get_str statemon ''source'') (\<lambda>source.
     let md_str = tab @ ''Monitors variable'' @ pl @ '': '' @ join '','' rs @
                  '' of '' @ source in
     bind (getitem statemon ''record'') (\<lambda>record.
     if isinstance_bool record then
       bind (truthy record) (\<lambda>t.
         if t then Inr (md_str @ '' for all members'') else Inr md_str)
     else
       bind (size_attr record) (\<lambda>sz.
         if sz = 0 then Inr (md_str @ '' for no member'')
         else
           bind (check_plural record None True) (\<lambda>pl.
           bind (py_iter record) (\<lambda>inds.
             Inr (md_str @ '', for member'' @ pl @ '': '' @
                  join '','' (map (py_str X) inds) @ ''.'' @ endll))))))))))"

definition expand_EventMonitor :: "'e ext \<Rightarrow> Std_mdexpander \<Rightarrow> pyval \<Rightarrow> error + string" where
  "expand_EventMonitor X self eventmon =
     bind (getitem eventmon ''variables'') (\<lambda>variables.
     bind (check_plural variables None True) (\<lambda>pl.
     bind (py_iter variables) (\<lambda>vars.
     bind (map_each (\<lambda>var. render_expression X self var False) vars) (\<lambda>rs.
     bind (get_str eventmon ''source'') (\<lambda>source.
     let md_str = tab @ ''Monitors variable'' @ pl @ '': '' @ join '','' rs @
                  '' of '' @ source in
     bind (getitem eventmon ''record'') (\<lambda>record.
     bind (if isinstance_bool record then
             bind (truthy record) (\<lambda>t.
               if t then Inr (md_str @ '' for all members'') else Inr md_str)
           else
             bind (size_attr record) (\<lambda>sz.
               if sz = 0 then Inr (md_str @ '' for no member'')
               else
                 bind (check_plural record None True) (\<lambda>pl.
                 bind (py_iter record) (\<lambda>inds.
                   Inr (md_str @ '', for member'' @ pl @ '': '' @
                        join '','' (map (py_str X) inds)))))) (\<lambda>md_str.
     bind (getitem eventmon ''event'') (\<lambda>event.
       Inr (md_str @ '' when event '' @ bold X (py_str X event) @
            '' is triggered.'' @ endll)))))))))"

definition expand_SpikeMonitor :: "'e ext \<Rightarrow> Std_mdexpander \<Rightarrow> pyval \<Rightarrow> error + string" where
  "expand_SpikeMonitor X self spikemon = expand_EventMonitor X self spikemon"

definition expand_PopulationRateMonitor ::
  "'e ext \<Rightarrow> Std_mdexpander \<Rightarrow> pyval \<Rightarrow> error + string" where
  "expand_PopulationRateMonitor X self popratemon =
     bind (get_str popratemon ''source'') (\<lambda>source.
       Inr (tab @ ''Monitors the population of '' @ source @ ''.'' @ endll))"

section \<open>Synapses and Poisson input\<close>

definition expand_pathway :: "'e ext \<Rightarrow> Std_mdexpander \<Rightarrow> pyval \<Rightarrow> error + string" where
  "expand_pathway X self pathway =
     bind (getitem pathway ''prepost'') (\<lambda>prepost.
     bind (get_str pathway ''event'') (\<lambda>event.
     bind (getitem pathway ''code'') (\<lambda>code.
     bind (str_operand code) (\<lambda>code.
     bind (prepare_math_statements X self code False True equals_default) (\<lambda>p.
     let md_str = tab @ ''On '' @ bold X (py_str X prepost) @ '' of event '' @ event @
                  '' statements: '' @ p @ '' executed'' in
     bind (if has_key ''delay'' pathway then
             bind (getitem pathway ''delay'') (\<lambda>delay.
             bind (render_expression X self delay False) (\<lambda>r.
               Inr (md_str @ '', with synaptic delay of '' @ r)))
           else Inr md_str) (\<lambda>md_str.
       Inr (md_str @ endll)))))))"

definition expand_pathways :: "'e ext \<Rightarrow> Std_mdexpander \<Rightarrow> pyval \<Rightarrow> error + string" where
  "expand_pathways X self pathways =
     bind (py_iter pathways) (\<lambda>ps. for_each (expand_pathway X self) ps '''')"

definition expand_summed_variable ::
  "'e ext \<Rightarrow> Std_mdexpander \<Rightarrow> pyval \<Rightarrow> error + string" where
  "expand_summed_variable X self sum_variable =
     bind (get_str sum_variable ''target'') (\<lambda>target.
     bind (getitem sum_variable ''code'') (\<lambda>code.
     bind (render_expression X self code False) (\<lambda>r.
       Inr (tab @ ''Updates target group '' @ target @ '' with statement: '' @ r @ endll))))"

definition expand_summed_variables ::
  "'e ext \<Rightarrow> Std_mdexpander \<Rightarrow> pyval \<Rightarrow> error + string" where
  "expand_summed_variables X self sum_variables =
     bind (py_iter sum_variables) (\<lambda>vs. for_each (expand_summed_variable X self) vs '''')"

definition expand_Synapses :: "'e ext \<Rightarrow> Std_mdexpander \<Rightarrow> pyval \<Rightarrow> error + string" where
  "expand_Synapses X self synapse =
     bind (get_str synapse ''source'') (\<lambda>source.
     bind (get_str synapse ''target'') (\<lambda>target.
     let md_str = tab @ ''From '' @ source @ '' to '' @ target @ endll in
     bind (if has_key ''equations'' synapse then
             bind (getitem synapse ''equations'') (\<lambda>equations.
             bind (expand_equations X self equations) (\<lambda>e.
             let md_str = md_str @ tab @ bold X ''Dynamics:'' @ endll @ tab @ e in
             if has_key ''user_method'' synapse then
               bind (get_str synapse ''user_method'') (\<lambda>m.
                 Inr (md_str @ tab @ m @ '' method is used for integration'' @ endll))
             else Inr md_str))
           else Inr md_str) (\<lambda>md_str.
     bind (if has_key ''pathways'' synapse then
             bind (getitem synapse ''pathways'') (\<lambda>pathways.
             bind (expand_pathways X self pathways) (\<lambda>e.
               Inr (md_str @ tab @ bold X ''Pathways:'' @ endll @ e)))
           else Inr md_str) (\<lambda>md_str.
     bind (if has_key ''summed_variables'' synapse then
             bind (getitem synapse ''summed_variables'') (\<lambda>summed_variables.
             bind (expand_summed_variables X self summed_variables) (\<lambda>e.
               Inr (md_str @ tab @ bold X ''Summed variables: '' @ endll @ e)))
           else Inr md_str) (\<lambda>md_str.
     if has_key ''identifiers'' synapse then
       bind (getitem synapse ''identifiers'') (\<lambda>identifiers.
       bind (expand_identifiers X self identifiers) (\<lambda>e.
         Inr (md_str @ tab @ bold X ''Constants:'' @ endll @ e)))
     else Inr md_str)))))"

definition expand_PoissonInput :: "'e ext \<Rightarrow> Std_mdexpander \<Rightarrow> pyval \<Rightarrow> error + string" where
  "expand_PoissonInput X self poinp =
     bind (getitem poinp ''N'') (\<lambda>N.
     bind (getitem poinp ''target_var'') (\<lambda>target_var.
     bind (render_expression X self target_var False) (\<lambda>rt.
     bind (getitem poinp ''rate'') (\<lambda>rate.
     bind (render_expression X self rate False) (\<lambda>rr.
     bind (getitem poinp ''weight'') (\<lambda>weight.
     bind (render_expression X self weight False) (\<lambda>rw.
     let md_str = tab @ ''PoissonInput with size '' @ bold X (py_str X N) @
                  '' gives input to variable '' @ rt @ '' with rate '' @ rr @
                  '' and weight of '' @ rw @ endll in
     if has_key ''identifiers'' poinp then
       bind (getitem poinp ''identifiers'') (\<lambda>identifiers.
       bind (expand_identifiers X self identifiers) (\<lambda>e.
         Inr (md_str @ tab @ bold X ''Constants:'' @ endll @ e)))
     else Inr md_str)))))))"

section \<open>create_md_string\<close>

text \<open>
  The table \<^verbatim>\<open>func_map\<close>: for each component key the expand function (\<^verbatim>\<open>'f'\<close>), the
  heading with Brian's wording (\<^verbatim>\<open>'hb'\<close>) and the plain heading (\<^verbatim>\<open>'h'\<close>).
\<close>

definition func_map ::
  "'e ext \<Rightarrow> Std_mdexpander \<Rightarrow> (string \<times> (pyval \<Rightarrow> error + string) \<times> string \<times> string) list" where
  "func_map X self =
     [(''neurongroup'', expand_NeuronGroup X self, ''NeuronGroup'', ''Neuron group''),
      (''poissongroup'', expand_PoissonGroup X self, ''PoissonGroup'', ''Poisson spike source''),
      (''spikegeneratorgroup'', expand_SpikeGeneratorGroup X self, ''SpikeGeneratorGroup'',
         ''Spike generating source''),
      (''statemonitor'', expand_StateMonitor X self, ''StateMonitor'', ''Activity recorder''),
      (''spikemonitor'', expand_SpikeMonitor X self, ''SpikeMonitor'',
         ''Spiking activity recorder''),
      (''eventmonitor'', expand_EventMonitor X self, ''EventMonitor'',
         ''Event activity recorder''),
      (''populationratemonitor'', expand_PopulationRateMonitor X self,
         ''PopulationRateMonitor'', ''Population rate recorder''),
      (''synapses'', expand_Synapses X self, ''Synapse'', ''Synapse''),
      (''poissoninput'', expand_PoissonInput X self, ''PoissonInput'', ''Poisson input'')]"

text \<open>
  One pass of the loop over \<^verbatim>\<open>run_dict['components'].items()\<close>: the text appended to
  \<^verbatim>\<open>run_string\<close> for one component key. The closing \<^verbatim>\<open>endl\<close> belongs to the loop body,
  not to the \<^verbatim>\<open>if\<close>.
\<close>

definition expand_component ::
  "'e ext \<Rightarrow> Std_mdexpander \<Rightarrow> bool \<Rightarrow> string \<times> pyval \<Rightarrow> error + string" where
  "expand_component X self brian_verbose item =
     (let obj_key = fst item; obj_list = snd item in
      bind (case map_of (func_map X self) obj_key of
              Some (f, hb, h) \<Rightarrow>
                (let obj_h = (if brian_verbose then hb else h) in
                 bind (check_plural obj_list None True) (\<lambda>pl.
                 let run_string = bold X (obj_h @ pl @ '' defined:'') @ endl in
                 bind (py_iter obj_list) (\<lambda>obj_mems.
                   for_each (\<lambda>obj_mem. bind (f obj_mem) (\<lambda>s. Inr (''- '' @ s)))
                     obj_mems run_string)))
            | None \<Rightarrow> Inr '''') (\<lambda>run_string.
        Inr (run_string @ endl)))"

text \<open>
  The loop that sorts \<^verbatim>\<open>run_dict['initializers_connectors']\<close> into the two lists. The
  test is \<^verbatim>\<open>init_cont['type'] is 'initializer'\<close>.
\<close>

fun differentiate ::
  "pyval list \<Rightarrow> pyval list \<Rightarrow> pyval list \<Rightarrow> error + pyval list \<times> pyval list" where
  "differentiate [] initializer connector = Inr (initializer, connector)"
| "differentiate (init_cont # rest) initializer connector =
     bind (getitem init_cont ''type'') (\<lambda>ty.
       if is_str ty ''initializer'' then
         differentiate rest (initializer @ [init_cont]) connector
       else differentiate rest initializer (connector @ [init_cont]))"

text \<open>The body of the loop over the runs: the \<^verbatim>\<open>run_string\<close> of one run.\<close>

definition expand_run ::
  "'e ext \<Rightarrow> Std_mdexpander \<Rightarrow> bool \<Rightarrow> nat \<Rightarrow> nat \<times> pyval \<Rightarrow> error + string" where
  "expand_run X self brian_verbose len_net_dict run =
     (let run_indx = fst run; run_dict = snd run;
          run_string =
            (if len_net_dict > 1 then
               header X (''Run '' @ str_int (int run_indx + 1) @ '' details'') 3 @ endl
             else endl) in
      bind (getitem run_dict ''duration'') (\<lambda>duration.
      let run_string = run_string @ ''Duration of simulation is '' @
                       bold X (py_str X duration) @ endll in
      bind (getitem run_dict ''components'') (\<lambda>components.
      bind (items components) (\<lambda>comps.
      bind (for_each (expand_component X self brian_verbose) comps run_string) (\<lambda>run_string.
      bind (if has_key ''initializers_connectors'' run_dict then
              bind (getitem run_dict ''initializers_connectors'') (\<lambda>ics.
              bind (py_iter ics) (\<lambda>init_conts. differentiate init_conts [] []))
            else Inr ([], [])) (\<lambda>(initializer, connector).
      bind (if initializer \<noteq> [] then
              bind (if brian_verbose then
                      bind (check_plural (PList initializer) None True) (\<lambda>pl.
                        Inr (run_string @ bold X (''Initializer'' @ pl @ '' defined:'') @ endl))
                    else
                      Inr (run_string @
                           bold X (''Initializing values at '' @ replicate 40 (CHR '' '') @
                                   ''starting:'') @ endl)) (\<lambda>run_string.
                for_each (\<lambda>initit. bind (expand_initializer X self initit)
                                       (\<lambda>s. Inr (''- '' @ s)))
                  initializer run_string)
            else Inr run_string) (\<lambda>run_string.
      bind (if connector \<noteq> [] then
              bind (check_plural (PList connector) None True) (\<lambda>pl.
              let run_string = run_string @ endl @
                               bold X (''Synaptic Connection'' @ pl @ '' defined:'') @ endl in
                for_each (\<lambda>connect. bind (expand_connector X self connect)
                                        (\<lambda>s. Inr (''- '' @ s)))
                  connector run_string)
            else Inr run_string) (\<lambda>run_string.
      if has_key ''inactive'' run_dict then
        bind (getitem run_dict ''inactive'') (\<lambda>inactive.
        bind (check_plural inactive None True) (\<lambda>pl.
        let run_string = run_string @ endl @ bold X (''Inactive member'' @ pl @ '':'') @ endl in
        bind (py_iter inactive) (\<lambda>members.
        bind (map_each str_operand members) (\<lambda>names.
          Inr (run_string @ join '', '' names)))))
      else Inr run_string))))))))"

text \<open>
  \<^verbatim>\<open>create_md_string\<close> returns the markdown text or raises, and leaves the object with
  \<^verbatim>\<open>github_md\<close> assigned and, when it returns, \<^verbatim>\<open>md_text\<close> as well. \<open>net_dict\<close> is the
  list of run dictionaries.
\<close>

definition create_md_string ::
  "'e ext \<Rightarrow> Std_mdexpander \<Rightarrow> pyval list \<Rightarrow> bool \<Rightarrow> bool \<Rightarrow>
   (error + string) \<times> Std_mdexpander" where
  "create_md_string X self net_dict brian_verbose github_md_arg =
     (let overall_string = header X ''Network details'' 1 @ endl;
          n_runs = (if length net_dict > 1 then '''' else ''s'');
          self = self\<lparr>github_md := Some github_md_arg\<rparr>
      in case
           bind (check_plural (PList net_dict) None True) (\<lambda>pl.
           let overall_string = overall_string @
                 (''The Network consist'' @ n_runs @ '' of '' @
                  bold X (py_str X (PInt (int (length net_dict)))) @
                  replicate 28 (CHR '' '') @ ''simulation run'' @ pl @
                  endl @ horizontal_rule X @ endl) in
             for_each (expand_run X self brian_verbose (length net_dict))
               (enumerate 0 net_dict) overall_string)
         of
           Inl e \<Rightarrow> (Inl e, self)
         | Inr overall_string \<Rightarrow> (Inr overall_string, self\<lparr>md_text := Some overall_string\<rparr>))"

section \<open>Equality of standard dictionaries\<close>

text \<open>
  Python's \<^verbatim>\<open>==\<close> on the values of a standard dictionary: strings by content, whichever
  object they are; lists member by member; dictionaries key by key, in whatever order the
  keys were inserted; arrays taken as equal when all their elements are.
\<close>

fun py_equal :: "pyval \<Rightarrow> pyval \<Rightarrow> bool" where
  "py_equal PNone PNone = True"
| "py_equal (PBool a) (PBool b) = (a = b)"
| "py_equal (PBool a) (PInt j) = ((if a then 1 else 0) = j)"
| "py_equal (PInt i) (PBool b) = (i = (if b then 1 else 0))"
| "py_equal (PInt i) (PInt j) = (i = j)"
| "py_equal (PStr i s) (PStr j t) = (s = t)"
| "py_equal (PList xs) (PList ys) = list_all2 py_equal xs ys"
| "py_equal (PDict kvs) (PDict kvs') =
     (length kvs = length kvs' \<and>
      list_all (\<lambda>kv. case map_of kvs' (fst kv) of
                        Some v' \<Rightarrow> py_equal (snd kv) v'
                      | None \<Rightarrow> False) kvs)"
| "py_equal (PArray xs) (PArray ys) = (xs = ys)"
| "py_equal (PQuantity q) (PQuantity r) = (q = r)"
| "py_equal v w = False"

section \<open>A concrete environment\<close>

text \<open>
  An instance of the external collaborators on which the model can be run: the markdown
  templates without escaping, a parser that accepts every text, and a printer that puts an
  expression between the dollar signs of an equation. \<open>new_expander\<close> is an object on which
  nothing has been called yet.
\<close>

definition plain_ext :: "string ext" where
  "plain_ext =
     \<lparr>header = (\<lambda>text level. replicate level (CHR ''#'') @ '' '' @ text),
      bold = (\<lambda>text. ''**'' @ text @ ''**''),
      horizontal_rule = ''___'',
      str_other = (\<lambda>v. ''[...]''),
      str_to_sympy = (\<lambda>s. Inr s),
      Derivative = (\<lambda>e. Inr (''d('' @ (case e of Text s \<Rightarrow> s | Sym s \<Rightarrow> s) @ '')/dt'')),
      latex = (\<lambda>e. ''$$'' @ (case e of Text s \<Rightarrow> s | Sym s \<Rightarrow> s) @ ''$$'')\<rparr>"

definition new_expander :: Std_mdexpander where
  "new_expander = \<lparr>github_md = None, md_text = None\<rparr>"

section \<open>Properties of check_plural\<close>

lemma py_iter_hasattr: "py_iter v = Inr xs \<Longrightarrow> hasattr v ''__iter__''"
  by (cases v) simp_all

lemma hasattr_py_iter:
  "hasattr v ''__iter__'' \<Longrightarrow> (\<exists>xs. py_iter v = Inr xs) \<or> py_iter v = Inl TypeError"
  by (cases v) simp_all

lemma check_plural_loop_short:
  "length xs \<le> 1 \<Longrightarrow> check_plural_loop sw 0 xs = Inr ''''"
  by (cases xs; cases "tl xs") simp_all

lemma check_plural_loop_long:
  "2 \<le> length xs \<Longrightarrow>
   check_plural_loop sw 0 xs =
     (if sw \<noteq> None \<and> the sw \<noteq> [] then
        (case map_of singular_plural_dict (the sw) of
           Some plural \<Rightarrow> Inr plural
         | None \<Rightarrow> Inl PlainException)
      else Inr ''s'')"
  by (cases xs; cases "tl xs") auto

lemma check_plural_iter:
  "py_iter v = Inr xs \<Longrightarrow> check_plural v sw ac = check_plural_loop sw 0 xs"
  using py_iter_hasattr [of v xs] by (simp add: check_plural_def bind_def)

lemma check_plural_not_iterable:
  "hasattr v ''__iter__'' \<Longrightarrow> py_iter v = Inl e \<Longrightarrow> check_plural v sw ac = Inl e"
  by (simp add: check_plural_def bind_def)

lemma check_plural_not_iter:
  "\<not> hasattr v ''__iter__'' \<Longrightarrow> check_plural v sw ac = (if ac then Inr '''' else Inl IndexError)"
  by (simp add: check_plural_def)



text \<open>
  Claim C5, amended. \<^verbatim>\<open>check_plural\<close> raises in exactly three situations: IndexError when the
  argument has no \<^verbatim>\<open>__iter__\<close> and constants are not allowed; the TypeError of the iteration
  when the argument has \<^verbatim>\<open>__iter__\<close> but cannot be iterated (a scalar Quantity); and the generic
  Exception when the argument is an iterable with at least two elements and a non-empty
  singular word is given that is neither \<^verbatim>\<open>'index'\<close> nor \<^verbatim>\<open>'property'\<close>. In every other case it
  returns.
\<close>

theorem check_plural_raises:
  "check_plural iterable singular_word allow_constants = Inl e \<longleftrightarrow>
     (e = IndexError \<and> \<not> hasattr iterable ''__iter__'' \<and> \<not> allow_constants) \<or>
     (e = TypeError \<and> hasattr iterable ''__iter__'' \<and> py_iter iterable = Inl TypeError) \<or>
     (e = PlainException \<and> hasattr iterable ''__iter__'' \<and>
      (\<exists>xs w. py_iter iterable = Inr xs \<and> 2 \<le> length xs \<and> singular_word = Some w \<and>
         w \<noteq> [] \<and> w \<noteq> ''index'' \<and> w \<noteq> ''property''))"
proof (cases "hasattr iterable ''__iter__''")
  case False
  then show ?thesis by (auto simp: check_plural_not_iter)
next
  case True
  show ?thesis
  proof (cases "py_iter iterable")
    case (Inl err)
    then have "err = TypeError"
      using hasattr_py_iter [OF True] by simp
    then show ?thesis
      using True Inl check_plural_not_iterable [OF True Inl] by auto
  next
    case (Inr xs)
    show ?thesis
    proof (cases "2 \<le> length xs")
      case long: True
      show ?thesis
        using True Inr long
        by (cases singular_word)
          (auto simp: check_plural_iter check_plural_loop_long singular_plural_dict_def)
    next
      case short: False
      then have "length xs \<le> 1" by simp
      then show ?thesis
        using True Inr short by (auto simp: check_plural_iter check_plural_loop_short)
    qed
  qed
qed

text \<open>The three raising situations, and a regular word that does not raise.\<close>

theorem check_plural_raises_witness:
  "check_plural (PInt 3) None False = Inl IndexError \<and>
   check_plural (PQuantity ''10. ms'') None True = Inl TypeError \<and>
   check_plural (PList [PInt 3, PInt 4]) (Some ''member'') True = Inl PlainException \<and>
   check_plural (PList [PInt 3, PInt 4]) (Some ''index'') True \<noteq> Inl PlainException"
  using check_plural_raises [of "PInt 3" None False IndexError]
    check_plural_raises [of "PQuantity ''10. ms''" None True TypeError]
    check_plural_raises [of "PList [PInt 3, PInt 4]" "Some ''member''" True PlainException]
    check_plural_raises [of "PList [PInt 3, PInt 4]" "Some ''index''" True PlainException]
  by simp

text \<open>
  Claim C5 as stated fails twice. For the empty singular word: it is given, it is neither of
  the two known words, the list has two elements, and the call returns \<^verbatim>\<open>'s'\<close> (the source
  tests \<^verbatim>\<open>if singular_word:\<close>, which an empty string does not pass). For a scalar Quantity:
  it has \<^verbatim>\<open>__iter__\<close>, constants are allowed, no singular word is given, and the call raises the
  TypeError of the loop, which is neither of the two errors of the claim.
\<close>

theorem check_plural_raises_counterexample:
  "hasattr (PList [PInt 3, PInt 4]) ''__iter__'' \<and>
   py_iter (PList [PInt 3, PInt 4]) = Inr [PInt 3, PInt 4] \<and>
   2 \<le> length [PInt 3, PInt 4] \<and>
   '''' \<noteq> ''index'' \<and> '''' \<noteq> ''property'' \<and>
   check_plural (PList [PInt 3, PInt 4]) (Some '''') True = Inr ''s'' \<and>
   hasattr (PQuantity ''10. ms'') ''__iter__'' \<and>
   check_plural (PQuantity ''10. ms'') None True = Inl TypeError"
  by (simp add: check_plural_def bind_def)

section \<open>Monitors: C8 and C10\<close>

lemma bind_Inr: "bind m f = Inr y \<longleftrightarrow> (\<exists>x. m = Inr x \<and> f x = Inr y)"
  by (cases m) (simp_all add: bind_def)

lemma bind_simps: "bind (Inr x) f = f x" "bind (Inl e) f = Inl e"
  by (simp_all add: bind_def)

lemma size_attr_zero: "size_attr v = Inr 0 \<longleftrightarrow> v = PArray []"
  by (cases v) auto

text \<open>
  Claim C8. \<^verbatim>\<open>expand_SpikeMonitor\<close> and \<^verbatim>\<open>expand_EventMonitor\<close> give the same result (text or
  exception) on every monitor dictionary.
\<close>

theorem expand_SpikeMonitor_eq:
  "expand_SpikeMonitor X self d = expand_EventMonitor X self d"
  by (simp add: expand_SpikeMonitor_def)

text \<open>
  The text of a state monitor whose heading can be built: what is returned for the three
  values of \<^verbatim>\<open>record\<close> the claim names, and what any returned text looks like.
\<close>

lemma state_clause:
  assumes "getitem mon ''variables'' = Inr variables"
    and "check_plural variables None True = Inr pl"
    and "py_iter variables = Inr vars"
    and "map_each (\<lambda>var. render_expression X self var False) vars = Inr rs"
    and "get_str mon ''source'' = Inr source"
    and "getitem mon ''record'' = Inr recd"
    and "heading = tab @ ''Monitors variable'' @ pl @ '': '' @ join '','' rs @ '' of '' @ source"
  shows "(recd = PBool True \<longrightarrow>
            expand_StateMonitor X self mon = Inr (heading @ '' for all members'')) \<and>
         (recd = PBool False \<longrightarrow> expand_StateMonitor X self mon = Inr heading) \<and>
         (\<not> isinstance_bool recd \<and> size_attr recd = Inr 0 \<longrightarrow>
            expand_StateMonitor X self mon = Inr (heading @ '' for no member'')) \<and>
         (\<forall>out. expand_StateMonitor X self mon = Inr out \<longrightarrow>
            (\<exists>clause. out = heading @ clause \<and>
               (clause = '' for all members'' \<longleftrightarrow> recd = PBool True) \<and>
               (clause = '' for no member'' \<longleftrightarrow>
                  \<not> isinstance_bool recd \<and> size_attr recd = Inr 0)))"
proof -
  have eq: "expand_StateMonitor X self mon =
      (if isinstance_bool recd then
         bind (truthy recd) (\<lambda>t.
           if t then Inr (heading @ '' for all members'') else Inr heading)
       else
         bind (size_attr recd) (\<lambda>sz.
           if sz = 0 then Inr (heading @ '' for no member'')
           else
             bind (check_plural recd None True) (\<lambda>pl.
             bind (py_iter recd) (\<lambda>inds.
               Inr (heading @ '', for member'' @ pl @ '': '' @
                    join '','' (map (py_str X) inds) @ ''.'' @ endll)))))"
    unfolding assms(7) expand_StateMonitor_def Let_def
    by (simp only: assms(1-6) bind_simps append_assoc)
  show ?thesis
    unfolding eq
    by (cases recd) (auto simp: bind_simps bind_Inr size_attr_zero)
qed

lemma event_clause:
  assumes "getitem mon ''variables'' = Inr variables"
    and "check_plural variables None True = Inr pl"
    and "py_iter variables = Inr vars"
    and "map_each (\<lambda>var. render_expression X self var False) vars = Inr rs"
    and "get_str mon ''source'' = Inr source"
    and "getitem mon ''record'' = Inr recd"
    and "getitem mon ''event'' = Inr event"
    and "heading = tab @ ''Monitors variable'' @ pl @ '': '' @ join '','' rs @ '' of '' @ source"
    and "ending = '' when event '' @ bold X (py_str X event) @ '' is triggered.'' @ endll"
  shows "(recd = PBool True \<longrightarrow>
            expand_EventMonitor X self mon = Inr (heading @ '' for all members'' @ ending)) \<and>
         (recd = PBool False \<longrightarrow> expand_EventMonitor X self mon = Inr (heading @ ending)) \<and>
         (\<not> isinstance_bool recd \<and> size_attr recd = Inr 0 \<longrightarrow>
            expand_EventMonitor X self mon = Inr (heading @ '' for no member'' @ ending)) \<and>
         (\<forall>out. expand_EventMonitor X self mon = Inr out \<longrightarrow>
            (\<exists>clause. out = heading @ clause @ ending \<and>
               (clause = '' for all members'' \<longleftrightarrow> recd = PBool True) \<and>
               (clause = '' for no member'' \<longleftrightarrow>
                  \<not> isinstance_bool recd \<and> size_attr recd = Inr 0)))"
proof -
  have eq: "expand_EventMonitor X self mon =
      bind (if isinstance_bool recd then
              bind (truthy recd) (\<lambda>t.
                if t then Inr (heading @ '' for all members'') else Inr heading)
            else
              bind (size_attr recd) (\<lambda>sz.
                if sz = 0 then Inr (heading @ '' for no member'')
                else
                  bind (check_plural recd None True) (\<lambda>pl.
                  bind (py_iter recd) (\<lambda>inds.
                    Inr (heading @ '', for member'' @ pl @ '': '' @
                         join '','' (map (py_str X) inds))))))
        (\<lambda>md_str. Inr (md_str @ ending))"
    unfolding assms(8,9) expand_EventMonitor_def Let_def
    by (simp only: assms(1-7) bind_simps append_assoc)
  show ?thesis
    unfolding eq
    by (cases recd) (auto simp: bind_simps bind_Inr size_attr_zero)
qed

text \<open>
  Claim C10. Let the heading of a monitor (the variables and the source) be buildable. Then
  for \<^verbatim>\<open>record = True\<close> the monitor returns the heading followed by \<^verbatim>\<open>' for all members'\<close>, for
  \<^verbatim>\<open>record = False\<close> the heading with no member clause at all, and for a \<^verbatim>\<open>record\<close> that is not a
  boolean and has size zero the heading followed by \<^verbatim>\<open>' for no member'\<close>; an event monitor
  then adds the event. Conversely, in any text a monitor returns, the clause after the heading
  is \<^verbatim>\<open>' for all members'\<close> exactly when \<^verbatim>\<open>record\<close> is \<^verbatim>\<open>True\<close> and \<^verbatim>\<open>' for no member'\<close> exactly when
  \<^verbatim>\<open>record\<close> is not a boolean and has size zero.
\<close>

theorem monitor_member_clause:
  assumes "getitem mon ''variables'' = Inr variables"
    and "check_plural variables None True = Inr pl"
    and "py_iter variables = Inr vars"
    and "map_each (\<lambda>var. render_expression X self var False) vars = Inr rs"
    and "get_str mon ''source'' = Inr source"
    and "getitem mon ''record'' = Inr recd"
    and "heading = tab @ ''Monitors variable'' @ pl @ '': '' @ join '','' rs @ '' of '' @ source"
    and "ending = '' when event '' @ bold X (py_str X event) @ '' is triggered.'' @ endll"
  shows "((recd = PBool True \<longrightarrow>
            expand_StateMonitor X self mon = Inr (heading @ '' for all members'')) \<and>
          (recd = PBool False \<longrightarrow> expand_StateMonitor X self mon = Inr heading) \<and>
          (\<not> isinstance_bool recd \<and> size_attr recd = Inr 0 \<longrightarrow>
             expand_StateMonitor X self mon = Inr (heading @ '' for no member'')) \<and>
          (\<forall>out. expand_StateMonitor X self mon = Inr out \<longrightarrow>
             (\<exists>clause. out = heading @ clause \<and>
                (clause = '' for all members'' \<longleftrightarrow> recd = PBool True) \<and>
                (clause = '' for no member'' \<longleftrightarrow>
                   \<not> isinstance_bool recd \<and> size_attr recd = Inr 0)))) \<and>
         (getitem mon ''event'' = Inr event \<longrightarrow>
          (recd = PBool True \<longrightarrow>
             expand_EventMonitor X self mon = Inr (heading @ '' for all members'' @ ending)) \<and>
          (recd = PBool False \<longrightarrow> expand_EventMonitor X self mon = Inr (heading @ ending)) \<and>
          (\<not> isinstance_bool recd \<and> size_attr recd = Inr 0 \<longrightarrow>
             expand_EventMonitor X self mon = Inr (heading @ '' for no member'' @ ending)) \<and>
          (\<forall>out. expand_EventMonitor X self mon = Inr out \<longrightarrow>
             (\<exists>clause. out = heading @ clause @ ending \<and>
                (clause = '' for all members'' \<longleftrightarrow> recd = PBool True) \<and>
                (clause = '' for no member'' \<longleftrightarrow>
                   \<not> isinstance_bool recd \<and> size_attr recd = Inr 0))))"
  using state_clause [OF assms(1-7)] event_clause [OF assms(1-6) _ assms(7,8)]
  by blast

lemmas run_simps =
  bind_def plain_ext_def new_expander_def render_expression_def check_plural_def
  replace_def starts_with_def get_str_def endl_def endll_def tab_def

text \<open>
  A monitor of the variable \<^verbatim>\<open>v\<close> of \<^verbatim>\<open>G\<close> with \<^verbatim>\<open>record\<close> set to \<^verbatim>\<open>True\<close>, to \<^verbatim>\<open>False\<close> and to an
  empty array, as a state monitor and as an event monitor.
\<close>

theorem monitor_member_clause_witness:
  "expand_StateMonitor plain_ext (new_expander\<lparr>github_md := Some False\<rparr>)
     (PDict [(''variables'', PList [PStr Fresh ''v'']), (''source'', PStr Fresh ''G''),
             (''record'', PBool True), (''event'', PStr Fresh ''spike'')])
     = Inr (tab @ ''Monitors variable: $v$ of G for all members'') \<and>
   expand_EventMonitor plain_ext (new_expander\<lparr>github_md := Some False\<rparr>)
     (PDict [(''variables'', PList [PStr Fresh ''v'']), (''source'', PStr Fresh ''G''),
             (''record'', PBool True), (''event'', PStr Fresh ''spike'')])
     = Inr (tab @ ''Monitors variable: $v$ of G for all members'' @
            '' when event **spike** is triggered.'' @ endll) \<and>
   expand_StateMonitor plain_ext (new_expander\<lparr>github_md := Some False\<rparr>)
     (PDict [(''variables'', PList [PStr Fresh ''v'']), (''source'', PStr Fresh ''G''),
             (''record'', PBool False), (''event'', PStr Fresh ''spike'')])
     = Inr (tab @ ''Monitors variable: $v$ of G'') \<and>
   expand_EventMonitor plain_ext (new_expander\<lparr>github_md := Some False\<rparr>)
     (PDict [(''variables'', PList [PStr Fresh ''v'']), (''source'', PStr Fresh ''G''),
             (''record'', PBool False), (''event'', PStr Fresh ''spike'')])
     = Inr (tab @ ''Monitors variable: $v$ of G'' @
            '' when event **spike** is triggered.'' @ endll) \<and>
   expand_StateMonitor plain_ext (new_expander\<lparr>github_md := Some False\<rparr>)
     (PDict [(''variables'', PList [PStr Fresh ''v'']), (''source'', PStr Fresh ''G''),
             (''record'', PArray []), (''event'', PStr Fresh ''spike'')])
     = Inr (tab @ ''Monitors variable: $v$ of G for no member'') \<and>
   expand_EventMonitor plain_ext (new_expander\<lparr>github_md := Some False\<rparr>)
     (PDict [(''variables'', PList [PStr Fresh ''v'']), (''source'', PStr Fresh ''G''),
             (''record'', PArray []), (''event'', PStr Fresh ''spike'')])
     = Inr (tab @ ''Monitors variable: $v$ of G for no member'' @
            '' when event **spike** is triggered.'' @ endll)"
  using monitor_member_clause [where X = plain_ext
        and self = "new_expander\<lparr>github_md := Some False\<rparr>"
        and mon = "PDict [(''variables'', PList [PStr Fresh ''v'']),
            (''source'', PStr Fresh ''G''), (''record'', PBool True),
            (''event'', PStr Fresh ''spike'')]"
        and variables = "PList [PStr Fresh ''v'']" and pl = "[]" and vars = "[PStr Fresh ''v'']"
        and rs = "[''$v$'']" and source = "''G''" and recd = "PBool True"
        and event = "PStr Fresh ''spike''"
        and heading = "tab @ ''Monitors variable: $v$ of G''"
        and ending = "'' when event **spike** is triggered.'' @ endll"]
    monitor_member_clause [where X = plain_ext
        and self = "new_expander\<lparr>github_md := Some False\<rparr>"
        and mon = "PDict [(''variables'', PList [PStr Fresh ''v'']),
            (''source'', PStr Fresh ''G''), (''record'', PBool False),
            (''event'', PStr Fresh ''spike'')]"
        and variables = "PList [PStr Fresh ''v'']" and pl = "[]" and vars = "[PStr Fresh ''v'']"
        and rs = "[''$v$'']" and source = "''G''" and recd = "PBool False"
        and event = "PStr Fresh ''spike''"
        and heading = "tab @ ''Monitors variable: $v$ of G''"
        and ending = "'' when event **spike** is triggered.'' @ endll"]
    monitor_member_clause [where X = plain_ext
        and self = "new_expander\<lparr>github_md := Some False\<rparr>"
        and mon = "PDict [(''variables'', PList [PStr Fresh ''v'']),
            (''source'', PStr Fresh ''G''), (''record'', PArray []),
            (''event'', PStr Fresh ''spike'')]"
        and variables = "PList [PStr Fresh ''v'']" and pl = "[]" and vars = "[PStr Fresh ''v'']"
        and rs = "[''$v$'']" and source = "''G''" and recd = "PArray []"
        and event = "PStr Fresh ''spike''"
        and heading = "tab @ ''Monitors variable: $v$ of G''"
        and ending = "'' when event **spike** is triggered.'' @ endll"]
  by (simp add: expand_StateMonitor_def expand_EventMonitor_def run_simps)

section \<open>The index of an initializer: C9\<close>





section \<open>Statements: C6\<close>

lemma for_each_map_each:
  "for_each (\<lambda>x. bind (g x) (\<lambda>r. Inr (r @ sep))) xs acc =
   bind (map_each g xs) (\<lambda>rs. Inr (acc @ concat (map (\<lambda>r. r @ sep) rs)))"
proof (induction xs arbitrary: acc)
  case Nil
  show ?case by (simp add: bind_simps)
next
  case (Cons x xs)
  show ?case
  proof (cases "g x")
    case (Inl e)
    then show ?thesis by (simp add: bind_simps)
  next
    case (Inr r)
    show ?thesis
    proof (cases "map_each g xs")
      case (Inl e)
      then show ?thesis using Inr Cons.IH by (simp add: bind_simps)
    next
      case rs: (Inr rs)
      then show ?thesis using Inr Cons.IH by (simp add: bind_simps)
    qed
  qed
qed

lemma map_each_length: "map_each g xs = Inr rs \<Longrightarrow> length rs = length xs"
  by (induction xs arbitrary: rs) (auto simp: bind_Inr)

lemma concat_sep_join: "rs \<noteq> [] \<Longrightarrow> concat (map (\<lambda>r. r @ sep) rs) = join sep rs @ sep"
  by (induction sep rs rule: join.induct) simp_all

lemma cons_first_not_Nil: "cons_first c ws \<noteq> []"
  by (cases ws) simp_all

lemma split_statements_not_Nil: "split_statements s \<noteq> []"
  by (induction s) (simp_all add: cons_first_not_Nil)

lemma set_cons_first:
  "ws \<noteq> [] \<Longrightarrow> set (cons_first c ws) = insert (c # hd ws) (set (tl ws))"
  by (cases ws) simp_all

lemma concat_cons_first: "concat (cons_first c ws) = c # concat ws"
  by (cases ws) simp_all

lemma length_cons_first: "ws \<noteq> [] \<Longrightarrow> length (cons_first c ws) = length ws"
  by (cases ws) simp_all

lemma split_statements_pieces:
  "p \<in> set (split_statements s) \<Longrightarrow> CHR '';'' \<notin> set p \<and> CHR 0x0A \<notin> set p"
proof (induction s arbitrary: p)
  case Nil
  then show ?case by simp
next
  case (Cons c s)
  obtain w ws where ws: "split_statements s = w # ws"
    using split_statements_not_Nil [of s] by (cases "split_statements s") auto
  show ?case
  proof (cases "c = CHR '';'' \<or> c = CHR 0x0A")
    case True
    then show ?thesis using Cons by auto
  next
    case False
    then have "p = c # w \<or> p \<in> set ws" using Cons.prems ws by auto
    then show ?thesis
      using False Cons.IH [of w] Cons.IH [of p] ws by auto
  qed
qed

lemma split_statements_concat:
  "concat (split_statements s) = filter (\<lambda>c. c \<noteq> CHR '';'' \<and> c \<noteq> CHR 0x0A) s"
  by (induction s) (auto simp: concat_cons_first)

lemma split_statements_length:
  "length (split_statements s) = Suc (length (filter (\<lambda>c. c = CHR '';'' \<or> c = CHR 0x0A) s))"
  by (induction s) (auto simp: length_cons_first split_statements_not_Nil)

lemma contains_single: "contains [a] s \<longleftrightarrow> a \<in> set s"
  by (induction s) (auto simp: starts_with_def)

lemma starts_with_pair: "starts_with [a, b] s \<Longrightarrow> b \<in> set s"
  by (cases s; cases "tl s") (auto simp: starts_with_def)

lemma contains_pair: "contains [a, b] s \<Longrightarrow> b \<in> set s"
proof (induction s)
  case Nil
  then show ?case by simp
next
  case (Cons c s)
  then show ?case using starts_with_pair [of a b "c # s"] by auto
qed

lemma contains_eq:
  "contains ''+='' s \<or> contains ''='' s \<or> contains ''-='' s \<longleftrightarrow> contains ''='' s"
  using contains_pair [of "CHR ''+''" "CHR ''=''" s] contains_pair [of "CHR ''-''" "CHR ''=''" s]
    contains_single [of "CHR ''=''" s]
  by blast

lemma drop_last_two: "take (length (j @ '', '') - 2) (j @ '', '') = j"
  by simp

text \<open>
  Claim C6. \<^verbatim>\<open>prepare_math_statements\<close> renders the pieces of its input in order and joins the
  results with \<^verbatim>\<open>', '\<close>, without a trailing separator. With \<^verbatim>\<open>separate\<close> false a piece is
  rendered by \<^verbatim>\<open>render_expression\<close> with the differential flag; with \<^verbatim>\<open>separate\<close> true a piece
  that contains an assignment operator and splits into exactly two parts is rendered as the
  left part, the operator (\<^verbatim>\<open>+=\<close>, \<^verbatim>\<open>-=\<close>, else the equals symbol) and the right part. The
  pieces are what lies between the separators \<^verbatim>\<open>;\<close> and newline: no piece contains one, there
  is one piece more than there are separators, and together they are the input without its
  separators.
\<close>

theorem prepare_math_statements_joined:
  "prepare_math_statements X self statements differential separate equals =
     bind (map_each
             (\<lambda>statement.
                if separate then
                  (if contains ''='' statement then
                     (case split_operators statement of
                        [lhs, rhs] \<Rightarrow>
                          bind (render_expression X self (PStr Fresh lhs) False) (\<lambda>l.
                          bind (render_expression X self (PStr Fresh rhs) False) (\<lambda>r.
                            Inr (l @ (if contains ''+='' statement then ''+=''
                                      else if contains ''-='' statement then ''-=''
                                      else equals) @ r)))
                      | _ \<Rightarrow> Inl ValueError)
                   else Inr [])
                else render_expression X self (PStr Fresh statement) differential)
             (split_statements statements))
       (\<lambda>rendered. Inr (join '', '' rendered)) \<and>
   (\<forall>piece \<in> set (split_statements statements).
      CHR '';'' \<notin> set piece \<and> CHR 0x0A \<notin> set piece) \<and>
   length (split_statements statements) =
     Suc (length (filter (\<lambda>c. c = CHR '';'' \<or> c = CHR 0x0A) statements)) \<and>
   concat (split_statements statements) =
     filter (\<lambda>c. c \<noteq> CHR '';'' \<and> c \<noteq> CHR 0x0A) statements"
proof -
  let ?g = "render_statement X self differential separate equals"
  let ?h = "\<lambda>statement.
                if separate then
                  (if contains ''='' statement then
                     (case split_operators statement of
                        [lhs, rhs] \<Rightarrow>
                          bind (render_expression X self (PStr Fresh lhs) False) (\<lambda>l.
                          bind (render_expression X self (PStr Fresh rhs) False) (\<lambda>r.
                            Inr (l @ (if contains ''+='' statement then ''+=''
                                      else if contains ''-='' statement then ''-=''
                                      else equals) @ r)))
                      | _ \<Rightarrow> Inl ValueError)
                   else Inr [])
                else render_expression X self (PStr Fresh statement) differential"
  have gh: "?g = ?h"
  proof
    fix statement
    show "?g statement = ?h statement"
      unfolding render_statement_def contains_eq
      by (simp split: list.splits)
  qed
  have "prepare_math_statements X self statements differential separate equals =
        bind (map_each ?g (split_statements statements)) (\<lambda>rendered. Inr (join '', '' rendered))"
  proof (cases "map_each ?g (split_statements statements)")
    case (Inl e)
    then show ?thesis
      by (simp add: prepare_math_statements_def for_each_map_each bind_simps)
  next
    case (Inr rs)
    then have "rs \<noteq> []"
      using map_each_length [OF Inr] split_statements_not_Nil [of statements] by auto
    then show ?thesis
      using Inr
      by (simp add: prepare_math_statements_def for_each_map_each bind_simps
          concat_sep_join del: join.simps)
  qed
  then show ?thesis
    unfolding gh
    using split_statements_pieces [of _ statements]
    by (simp add: split_statements_concat split_statements_length)
qed

text \<open>
  Two statements, rendered with and without separation.
\<close>

theorem prepare_math_statements_joined_witness:
  "split_statements ''v = 1; w += 2'' = [''v = 1'', '' w += 2''] \<and>
   prepare_math_statements plain_ext (new_expander\<lparr>github_md := Some False\<rparr>)
     ''v = 1; w += 2'' False True equals_default = Inr ''$v $&#8592;$ 1$, $ w $+=$ 2$'' \<and>
   prepare_math_statements plain_ext (new_expander\<lparr>github_md := Some False\<rparr>)
     ''v = 1; w += 2'' False False equals_default = Inr ''$v = 1$, $ w += 2$''"
  using prepare_math_statements_joined [of plain_ext "new_expander\<lparr>github_md := Some False\<rparr>"
      "''v = 1; w += 2''" False True equals_default]
    prepare_math_statements_joined [of plain_ext "new_expander\<lparr>github_md := Some False\<rparr>"
      "''v = 1; w += 2''" False False equals_default]
  by (simp add: run_simps equals_default_def)

section \<open>Independence of the object state: C3\<close>

lemma render_expression_md_text:
  "render_expression X (self\<lparr>md_text := t\<rparr>) = render_expression X self"
  by (rule ext)+ (simp add: render_expression_def)

lemma render_statement_md_text:
  "render_statement X (self\<lparr>md_text := t\<rparr>) = render_statement X self"
  by (rule ext)+ (simp only: render_statement_def render_expression_md_text)

lemma prepare_math_statements_md_text:
  "prepare_math_statements X (self\<lparr>md_text := t\<rparr>) = prepare_math_statements X self"
  by (rule ext)+ (simp only: prepare_math_statements_def render_statement_md_text)

lemma expand_identifier_md_text:
  "expand_identifier X (self\<lparr>md_text := t\<rparr>) = expand_identifier X self"
  by (rule ext)+ (simp only: expand_identifier_def render_expression_md_text)

lemma expand_identifiers_md_text:
  "expand_identifiers X (self\<lparr>md_text := t\<rparr>) = expand_identifiers X self"
  by (rule ext)+ (simp only: expand_identifiers_def expand_identifier_md_text)

lemma expand_event_md_text:
  "expand_event X (self\<lparr>md_text := t\<rparr>) = expand_event X self"
  by (rule ext)+
    (simp only: expand_event_def render_expression_md_text prepare_math_statements_md_text)

lemma expand_events_md_text:
  "expand_events X (self\<lparr>md_text := t\<rparr>) = expand_events X self"
  by (rule ext)+ (simp only: expand_events_def expand_event_md_text)

lemma expand_equation_md_text:
  "expand_equation X (self\<lparr>md_text := t\<rparr>) = expand_equation X self"
  by (rule ext)+ (simp only: expand_equation_def render_expression_md_text)

lemma expand_equations_md_text:
  "expand_equations X (self\<lparr>md_text := t\<rparr>) = expand_equations X self"
  by (rule ext)+ (simp only: expand_equations_def expand_equation_md_text)

lemma expand_initializer_md_text:
  "expand_initializer X (self\<lparr>md_text := t\<rparr>) = expand_initializer X self"
  by (rule ext)+
    (simp only: expand_initializer_def render_expression_md_text expand_identifiers_md_text)

lemma expand_connector_md_text:
  "expand_connector X (self\<lparr>md_text := t\<rparr>) = expand_connector X self"
  by (rule ext)+
    (simp only: expand_connector_def render_expression_md_text expand_identifiers_md_text)

lemma expand_runregularly_md_text:
  "expand_runregularly X (self\<lparr>md_text := t\<rparr>) = expand_runregularly X self"
  by (rule ext)+
    (simp only: expand_runregularly_def render_expression_md_text
      prepare_math_statements_md_text)

lemma expand_NeuronGroup_md_text:
  "expand_NeuronGroup X (self\<lparr>md_text := t\<rparr>) = expand_NeuronGroup X self"
  by (rule ext)+
    (simp only: expand_NeuronGroup_def expand_equations_md_text expand_events_md_text
      expand_identifiers_md_text expand_runregularly_md_text)

lemma expand_PoissonGroup_md_text:
  "expand_PoissonGroup X (self\<lparr>md_text := t\<rparr>) = expand_PoissonGroup X self"
  by (rule ext)+
    (simp only: expand_PoissonGroup_def render_expression_md_text
      expand_identifiers_md_text expand_runregularly_md_text)

lemma expand_SpikeGeneratorGroup_md_text:
  "expand_SpikeGeneratorGroup X (self\<lparr>md_text := t\<rparr>) = expand_SpikeGeneratorGroup X self"
  by (rule ext)+ (simp only: expand_SpikeGeneratorGroup_def expand_runregularly_md_text)

lemma expand_StateMonitor_md_text:
  "expand_StateMonitor X (self\<lparr>md_text := t\<rparr>) = expand_StateMonitor X self"
  by (rule ext)+ (simp only: expand_StateMonitor_def render_expression_md_text)

lemma expand_EventMonitor_md_text:
  "expand_EventMonitor X (self\<lparr>md_text := t\<rparr>) = expand_EventMonitor X self"
  by (rule ext)+ (simp only: expand_EventMonitor_def render_expression_md_text)

lemma expand_SpikeMonitor_md_text:
  "expand_SpikeMonitor X (self\<lparr>md_text := t\<rparr>) = expand_SpikeMonitor X self"
  by (rule ext)+ (simp only: expand_SpikeMonitor_def expand_EventMonitor_md_text)

lemma expand_PopulationRateMonitor_md_text:
  "expand_PopulationRateMonitor X (self\<lparr>md_text := t\<rparr>) =
   expand_PopulationRateMonitor X self"
  by (rule ext)+ (simp only: expand_PopulationRateMonitor_def)

lemma expand_pathway_md_text:
  "expand_pathway X (self\<lparr>md_text := t\<rparr>) = expand_pathway X self"
  by (rule ext)+
    (simp only: expand_pathway_def render_expression_md_text prepare_math_statements_md_text)

lemma expand_pathways_md_text:
  "expand_pathways X (self\<lparr>md_text := t\<rparr>) = expand_pathways X self"
  by (rule ext)+ (simp only: expand_pathways_def expand_pathway_md_text)

lemma expand_summed_variable_md_text:
  "expand_summed_variable X (self\<lparr>md_text := t\<rparr>) = expand_summed_variable X self"
  by (rule ext)+ (simp only: expand_summed_variable_def render_expression_md_text)

lemma expand_summed_variables_md_text:
  "expand_summed_variables X (self\<lparr>md_text := t\<rparr>) = expand_summed_variables X self"
  by (rule ext)+ (simp only: expand_summed_variables_def expand_summed_variable_md_text)

lemma expand_Synapses_md_text:
  "expand_Synapses X (self\<lparr>md_text := t\<rparr>) = expand_Synapses X self"
  by (rule ext)+
    (simp only: expand_Synapses_def expand_equations_md_text expand_pathways_md_text
      expand_summed_variables_md_text expand_identifiers_md_text)

lemma expand_PoissonInput_md_text:
  "expand_PoissonInput X (self\<lparr>md_text := t\<rparr>) = expand_PoissonInput X self"
  by (rule ext)+
    (simp only: expand_PoissonInput_def render_expression_md_text expand_identifiers_md_text)

lemma func_map_md_text: "func_map X (self\<lparr>md_text := t\<rparr>) = func_map X self"
  by (simp only: func_map_def expand_NeuronGroup_md_text expand_PoissonGroup_md_text
      expand_SpikeGeneratorGroup_md_text expand_StateMonitor_md_text
      expand_SpikeMonitor_md_text expand_EventMonitor_md_text
      expand_PopulationRateMonitor_md_text expand_Synapses_md_text
      expand_PoissonInput_md_text)

lemma expand_component_md_text:
  "expand_component X (self\<lparr>md_text := t\<rparr>) = expand_component X self"
  by (rule ext)+ (simp only: expand_component_def func_map_md_text)

lemma expand_run_md_text:
  "expand_run X (self\<lparr>md_text := t\<rparr>) = expand_run X self"
  by (rule ext)+
    (simp only: expand_run_def expand_component_md_text expand_initializer_md_text
      expand_connector_md_text)

text \<open>
  Claim C3, amended. For one and the same \<^verbatim>\<open>net_dict\<close> (the same nested structure, with the
  keys of every dictionary in the same order), the same \<^verbatim>\<open>brian_verbose\<close> and the same
  \<^verbatim>\<open>github_md\<close>, the value \<^verbatim>\<open>create_md_string\<close> returns (the markdown text or the exception) is
  the same whatever attributes the object had before the call.
\<close>

theorem create_md_string_pure:
  "fst (create_md_string X self1 net_dict brian_verbose github_md_arg) =
   fst (create_md_string X self2 net_dict brian_verbose github_md_arg)"
proof -
  have run: "expand_run X (self2\<lparr>github_md := Some github_md_arg\<rparr>) =
             expand_run X (self1\<lparr>github_md := Some github_md_arg\<rparr>)"
  proof -
    have "self2\<lparr>github_md := Some github_md_arg\<rparr> =
          (self1\<lparr>github_md := Some github_md_arg\<rparr>)\<lparr>md_text := md_text self2\<rparr>"
      by (cases self1; cases self2) simp
    then show ?thesis
      by (simp only: expand_run_md_text)
  qed
  show ?thesis
    by (simp add: create_md_string_def Let_def run split: sum.splits)
qed

text \<open>
  Claim C3 as stated fails: two standard dictionaries that are equal for Python can give
  different texts. The components of a run are expanded in the order in which the dictionary
  lists its keys, so the same two components in the other order give another text. And the
  entry of \<^verbatim>\<open>initializers_connectors\<close> is sorted by the identity of its \<^verbatim>\<open>'type'\<close> string, so
  an equal string that is another object gives an exception where the first gives a text.
\<close>

theorem create_md_string_pure_counterexample:
  "py_equal
     (PList [PDict [(''duration'', PQuantity ''10. ms''),
                    (''components'',
                     PDict [(''populationratemonitor'', PList [PDict [(''source'', PStr Fresh ''G'')]]),
                            (''clock'', PList [])])]])
     (PList [PDict [(''duration'', PQuantity ''10. ms''),
                    (''components'',
                     PDict [(''clock'', PList []),
                            (''populationratemonitor'',
                             PList [PDict [(''source'', PStr Fresh ''G'')]])])]]) \<and>
   fst (create_md_string plain_ext new_expander
          [PDict [(''duration'', PQuantity ''10. ms''),
                  (''components'',
                   PDict [(''populationratemonitor'', PList [PDict [(''source'', PStr Fresh ''G'')]]),
                          (''clock'', PList [])])]]
          False False)
     = Inr (''# Network details'' @ endl @
            ''The Network consists of **1**'' @ replicate 28 (CHR '' '') @ ''simulation run'' @
            endl @ ''___'' @ endl @
            endl @ ''Duration of simulation is **10. ms**'' @ endll @
            ''**Population rate recorder defined:**'' @ endl @
            ''- '' @ tab @ ''Monitors the population of G.'' @ endll @ endl @
            endl) \<and>
   fst (create_md_string plain_ext new_expander
          [PDict [(''duration'', PQuantity ''10. ms''),
                  (''components'',
                   PDict [(''clock'', PList []),
                          (''populationratemonitor'',
                           PList [PDict [(''source'', PStr Fresh ''G'')]])])]]
          False False)
     = Inr (''# Network details'' @ endl @
            ''The Network consists of **1**'' @ replicate 28 (CHR '' '') @ ''simulation run'' @
            endl @ ''___'' @ endl @
            endl @ ''Duration of simulation is **10. ms**'' @ endll @
            endl @
            ''**Population rate recorder defined:**'' @ endl @
            ''- '' @ tab @ ''Monitors the population of G.'' @ endll @ endl) \<and>
   py_equal
     (PList [PDict [(''duration'', PQuantity ''10. ms''), (''components'', PDict []),
                    (''initializers_connectors'',
                     PList [PDict [(''type'', PStr Interned ''initializer''),
                                   (''variable'', PStr Fresh ''v''), (''source'', PStr Fresh ''G''),
                                   (''value'', PInt 1), (''index'', PBool True)]])]])
     (PList [PDict [(''duration'', PQuantity ''10. ms''), (''components'', PDict []),
                    (''initializers_connectors'',
                     PList [PDict [(''type'', PStr Fresh ''initializer''),
                                   (''variable'', PStr Fresh ''v''), (''source'', PStr Fresh ''G''),
                                   (''value'', PInt 1), (''index'', PBool True)]])]]) \<and>
   fst (create_md_string plain_ext new_expander
          [PDict [(''duration'', PQuantity ''10. ms''), (''components'', PDict []),
                  (''initializers_connectors'',
                   PList [PDict [(''type'', PStr Interned ''initializer''),
                                 (''variable'', PStr Fresh ''v''), (''source'', PStr Fresh ''G''),
                                 (''value'', PInt 1), (''index'', PBool True)]])]]
          False False)
     \<noteq>
   fst (create_md_string plain_ext new_expander
          [PDict [(''duration'', PQuantity ''10. ms''), (''components'', PDict []),
                  (''initializers_connectors'',
                   PList [PDict [(''type'', PStr Fresh ''initializer''),
                                 (''variable'', PStr Fresh ''v''), (''source'', PStr Fresh ''G''),
                                 (''value'', PInt 1), (''index'', PBool True)]])]]
          False False)"
  by (simp add: create_md_string_def expand_run_def expand_component_def func_map_def
      expand_PopulationRateMonitor_def expand_initializer_def expand_connector_def
      run_simps str_int_def str_nat.simps)

section \<open>The layout of the text: C1\<close>

lemma for_each_concat:
  "for_each f xs acc = bind (map_each f xs) (\<lambda>ss. Inr (acc @ concat ss))"
proof (induction xs arbitrary: acc)
  case Nil
  show ?case by (simp add: bind_simps)
next
  case (Cons x xs)
  show ?case
  proof (cases "f x")
    case (Inl e)
    then show ?thesis by (simp add: bind_simps)
  next
    case (Inr r)
    then show ?thesis
      using Cons.IH by (cases "map_each f xs") (simp_all add: bind_simps)
  qed
qed


lemma expand_run_components:
  assumes "expand_run X self brian_verbose n (k, run_dict) = Inr s"
  shows "\<exists>duration components comps texts rest.
      getitem run_dict ''duration'' = Inr duration \<and>
      getitem run_dict ''components'' = Inr components \<and>
      items components = Inr comps \<and>
      map_each (expand_component X self brian_verbose) comps = Inr texts \<and>
      s = (if 1 < n then header X (''Run '' @ str_int (int k + 1) @ '' details'') 3 @ endl
           else endl) @
          ''Duration of simulation is '' @ bold X (py_str X duration) @ endll @
          concat texts @ rest"
proof -
  from assms obtain duration components comps run_string where
    d: "getitem run_dict ''duration'' = Inr duration"
    and c: "getitem run_dict ''components'' = Inr components"
    and i: "items components = Inr comps"
    and f: "for_each (expand_component X self brian_verbose) comps
              ((if 1 < n then header X (''Run '' @ str_int (int k + 1) @ '' details'') 3 @ endl
                else endl) @
               ''Duration of simulation is '' @ bold X (py_str X duration) @ endll) =
            Inr run_string"
    and r: "\<exists>rest. s = run_string @ rest"
    unfolding expand_run_def Let_def bind_Inr fst_conv snd_conv
    by (auto simp: for_each_concat bind_Inr split: if_splits)
  from f obtain texts where
    t: "map_each (expand_component X self brian_verbose) comps = Inr texts"
    and rs: "run_string =
      ((if 1 < n then header X (''Run '' @ str_int (int k + 1) @ '' details'') 3 @ endl
        else endl) @
       ''Duration of simulation is '' @ bold X (py_str X duration) @ endll) @ concat texts"
    by (auto simp: for_each_concat bind_Inr)
  from r rs d c i t show ?thesis by auto
qed





section \<open>Components of a run: C2\<close>

lemma map_each_bind_map:
  "map_each (\<lambda>x. bind (f x) (\<lambda>s. Inr (g s))) xs = bind (map_each f xs) (\<lambda>es. Inr (map g es))"
proof (induction xs)
  case Nil
  show ?case by (simp add: bind_simps)
next
  case (Cons x xs)
  show ?case
  proof (cases "f x")
    case (Inl e)
    then show ?thesis by (simp add: bind_simps)
  next
    case (Inr r)
    then show ?thesis
      using Cons.IH by (cases "map_each f xs") (simp_all add: bind_simps)
  qed
qed

lemma bind_assoc: "bind (bind m f) g = bind m (\<lambda>x. bind (f x) g)"
  by (cases m) (simp_all add: bind_simps)

lemma func_map_keys:
  "map_of (func_map X self) obj_key \<noteq> None \<longleftrightarrow>
   obj_key \<in> {''neurongroup'', ''poissongroup'', ''spikegeneratorgroup'', ''statemonitor'',
              ''spikemonitor'', ''eventmonitor'', ''populationratemonitor'', ''synapses'',
              ''poissoninput''}"
  by (simp add: func_map_def)

lemma expand_component_eq:
  "expand_component X self brian_verbose (obj_key, obj_list) =
     (case map_of (func_map X self) obj_key of
        Some (f, hb, h) \<Rightarrow>
          bind (check_plural obj_list None True) (\<lambda>pl.
          bind (py_iter obj_list) (\<lambda>obj_mems.
          bind (map_each f obj_mems) (\<lambda>expansions.
            Inr (bold X ((if brian_verbose then hb else h) @ pl @ '' defined:'') @ endl @
                 concat (map (\<lambda>e. ''- '' @ e) expansions) @ endl))))
      | None \<Rightarrow> Inr endl)"
proof (cases "map_of (func_map X self) obj_key")
  case None
  then show ?thesis by (simp add: expand_component_def bind_simps)
next
  case (Some entry)
  obtain f hb h where entry: "entry = (f, hb, h)" by (cases entry)
  show ?thesis
    unfolding expand_component_def Let_def fst_conv snd_conv Some entry option.case prod.case
      for_each_concat map_each_bind_map bind_assoc bind_simps
    by simp
qed


text \<open>
  Claim C2, amended. A key of \<^verbatim>\<open>run_dict['components']\<close> is in the table exactly when it is one
  of the nine keys. For such a key the loop appends the bold heading (the table's \<^verbatim>\<open>'hb'\<close> word
  when \<^verbatim>\<open>brian_verbose\<close> is true, its \<^verbatim>\<open>'h'\<close> word otherwise, then the plural marker and
  \<^verbatim>\<open>' defined:'\<close>), a newline, one \<^verbatim>\<open>'- '\<close>-prefixed expansion per member in list order by the
  key's handler, and a closing newline. For any other key it raises nothing, does not look at
  the value, and appends the closing newline only. In the text of a run these contributions
  follow the duration line in the order of the dictionary.
\<close>

theorem components_expanded:
  "(map_of (func_map X self) obj_key \<noteq> None \<longleftrightarrow>
      obj_key \<in> {''neurongroup'', ''poissongroup'', ''spikegeneratorgroup'', ''statemonitor'',
                 ''spikemonitor'', ''eventmonitor'', ''populationratemonitor'', ''synapses'',
                 ''poissoninput''}) \<and>
   expand_component X self brian_verbose (obj_key, obj_list) =
     (case map_of (func_map X self) obj_key of
        Some (f, hb, h) \<Rightarrow>
          bind (check_plural obj_list None True) (\<lambda>pl.
          bind (py_iter obj_list) (\<lambda>obj_mems.
          bind (map_each f obj_mems) (\<lambda>expansions.
            Inr (bold X ((if brian_verbose then hb else h) @ pl @ '' defined:'') @ endl @
                 concat (map (\<lambda>e. ''- '' @ e) expansions) @ endl))))
      | None \<Rightarrow> Inr endl) \<and>
   (expand_run X self brian_verbose n (k, run_dict) = Inr s \<longrightarrow>
      (\<exists>duration components comps texts rest.
         getitem run_dict ''duration'' = Inr duration \<and>
         getitem run_dict ''components'' = Inr components \<and>
         items components = Inr comps \<and>
         map_each (expand_component X self brian_verbose) comps = Inr texts \<and>
         s = (if 1 < n then header X (''Run '' @ str_int (int k + 1) @ '' details'') 3 @ endl
              else endl) @
             ''Duration of simulation is '' @ bold X (py_str X duration) @ endll @
             concat texts @ rest))"
  using func_map_keys [of X self obj_key]
    expand_component_eq [of X self brian_verbose obj_key obj_list]
    expand_run_components [of X self brian_verbose n k run_dict s]
  by blast

text \<open>
  A group of two population rate monitors with the plain heading, and a run whose only
  component is one such monitor, with Brian's heading.
\<close>

theorem components_expanded_witness:
  "expand_component plain_ext new_expander False
     (''populationratemonitor'',
      PList [PDict [(''source'', PStr Fresh ''G'')], PDict [(''source'', PStr Fresh ''H'')]])
     = Inr (''**Population rate recorders defined:**'' @ endl @
            ''- '' @ tab @ ''Monitors the population of G.'' @ endll @
            ''- '' @ tab @ ''Monitors the population of H.'' @ endll @ endl) \<and>
   expand_run plain_ext new_expander True 1
     (0, PDict [(''duration'', PQuantity ''10. ms''),
                (''components'', PDict [(''populationratemonitor'',
                   PList [PDict [(''source'', PStr Fresh ''G'')]])])])
     = Inr (endl @ ''Duration of simulation is **10. ms**'' @ endll @
            ''**PopulationRateMonitor defined:**'' @ endl @
            ''- '' @ tab @ ''Monitors the population of G.'' @ endll @ endl)"
  using components_expanded [where X = plain_ext and self = new_expander
      and obj_key = "''populationratemonitor''" and brian_verbose = False
      and obj_list =
        "PList [PDict [(''source'', PStr Fresh ''G'')], PDict [(''source'', PStr Fresh ''H'')]]"]
    components_expanded [where X = plain_ext and self = new_expander
      and brian_verbose = True and n = 1 and k = 0
      and run_dict =
        "PDict [(''duration'', PQuantity ''10. ms''),
                (''components'', PDict [(''populationratemonitor'',
                   PList [PDict [(''source'', PStr Fresh ''G'')]])])]"
      and s =
        "endl @ ''Duration of simulation is **10. ms**'' @ endll @
         ''**PopulationRateMonitor defined:**'' @ endl @
         ''- '' @ tab @ ''Monitors the population of G.'' @ endll @ endl"]
  by (simp add: expand_run_def expand_component_def func_map_def
      expand_PopulationRateMonitor_def run_simps)

text \<open>
  Claim C2 as stated fails in two places. A key outside the table is not without effect: the
  text of a run with the unknown component \<^verbatim>\<open>clock\<close> is one newline longer than the text of the
  same run without it. And for the key \<^verbatim>\<open>synapses\<close> the word used with \<^verbatim>\<open>brian_verbose\<close> is
  \<^verbatim>\<open>Synapse\<close>, where Brian's class is named \<^verbatim>\<open>Synapses\<close>.
\<close>

theorem components_expanded_counterexample:
  "fst (create_md_string plain_ext new_expander
          [PDict [(''duration'', PQuantity ''10. ms''), (''components'', PDict [])]]
          False False)
     = Inr (''# Network details'' @ endl @
            ''The Network consists of **1**'' @ replicate 28 (CHR '' '') @ ''simulation run'' @
            endl @ ''___'' @ endl @
            endl @ ''Duration of simulation is **10. ms**'' @ endll) \<and>
   fst (create_md_string plain_ext new_expander
          [PDict [(''duration'', PQuantity ''10. ms''),
                  (''components'', PDict [(''clock'', PList [])])]]
          False False)
     = Inr (''# Network details'' @ endl @
            ''The Network consists of **1**'' @ replicate 28 (CHR '' '') @ ''simulation run'' @
            endl @ ''___'' @ endl @
            endl @ ''Duration of simulation is **10. ms**'' @ endll @ endl) \<and>
   expand_component plain_ext new_expander True
     (''synapses'', PList [PDict [(''source'', PStr Fresh ''G''), (''target'', PStr Fresh ''H'')]])
     = Inr (''**Synapse defined:**'' @ endl @ ''- '' @ tab @ ''From G to H'' @ endll @ endl)"
  by (simp add: create_md_string_def expand_run_def expand_component_def func_map_def
      expand_Synapses_def run_simps str_int_def str_nat.simps)

section \<open>Initializers and connectors of a run: C7\<close>

text \<open>
  What the sorting loop does: an entry goes to the initializers exactly when its \<^verbatim>\<open>'type'\<close> is
  the interned string object \<^verbatim>\<open>'initializer'\<close>; both lists keep the input order.
\<close>

lemma differentiate_partition:
  "differentiate init_conts initializer connector = Inr (ini, con) \<Longrightarrow>
   ini = initializer @
         filter (\<lambda>c. \<exists>ty. getitem c ''type'' = Inr ty \<and> is_str ty ''initializer'') init_conts \<and>
   con = connector @
         filter (\<lambda>c. \<exists>ty. getitem c ''type'' = Inr ty \<and> \<not> is_str ty ''initializer'') init_conts"
proof (induction init_conts arbitrary: initializer connector)
  case Nil
  then show ?case by simp
next
  case (Cons c cs)
  from Cons.prems obtain ty where ty: "getitem c ''type'' = Inr ty"
    by (auto simp: bind_Inr)
  show ?case
  proof (cases "is_str ty ''initializer''")
    case True
    then have "differentiate cs (initializer @ [c]) connector = Inr (ini, con)"
      using Cons.prems ty by (simp add: bind_simps)
    from Cons.IH [OF this] show ?thesis using ty True by simp
  next
    case False
    then have "differentiate cs initializer (connector @ [c]) = Inr (ini, con)"
      using Cons.prems ty by (simp add: bind_simps)
    from Cons.IH [OF this] show ?thesis using ty False by simp
  qed
qed

text \<open>
  Claim C7 on a concrete run. The source tests \<^verbatim>\<open>init_cont['type'] is 'initializer'\<close>. An entry
  whose type equals \<^verbatim>\<open>'initializer'\<close> without being the interned object is sent to
  \<^verbatim>\<open>expand_connector\<close>, which raises \<^verbatim>\<open>KeyError: 'target'\<close>; the same entry with the interned
  object is expanded by \<^verbatim>\<open>expand_initializer\<close> in the initializer section.
\<close>

theorem initializer_identity_failing_input:
  "eq_str (PStr Fresh ''initializer'') ''initializer'' = Inr True \<and>
   fst (create_md_string plain_ext new_expander
          [PDict [(''duration'', PQuantity ''10. ms''), (''components'', PDict []),
                  (''initializers_connectors'',
                   PList [PDict [(''type'', PStr Fresh ''initializer''),
                                 (''variable'', PStr Fresh ''v''), (''source'', PStr Fresh ''G''),
                                 (''value'', PInt 1), (''index'', PBool True)]])]]
          False False)
     = Inl (KeyError ''target'') \<and>
   fst (create_md_string plain_ext new_expander
          [PDict [(''duration'', PQuantity ''10. ms''), (''components'', PDict []),
                  (''initializers_connectors'',
                   PList [PDict [(''type'', PStr Interned ''initializer''),
                                 (''variable'', PStr Fresh ''v''), (''source'', PStr Fresh ''G''),
                                 (''value'', PInt 1), (''index'', PBool True)]])]]
          False False)
     = Inr (''# Network details'' @ endl @
            ''The Network consists of **1**'' @ replicate 28 (CHR '' '') @ ''simulation run'' @
            endl @ ''___'' @ endl @
            endl @ ''Duration of simulation is **10. ms**'' @ endll @
            ''**Initializing values at '' @ replicate 40 (CHR '' '') @ ''starting:**'' @ endl @
            ''- Variable $v$ of G initialized with $1$ to all members'' @ endll)"
  by (simp add: create_md_string_def expand_run_def expand_initializer_def
      expand_connector_def run_simps str_int_def str_nat.simps)

end
